theory Spec2Isabelle
  imports Main
begin

section \<open>JavaScript values\<close>

text \<open>
  The values that travel through \<^verbatim>\<open>src/managers/folders.ts\<close>: JSON data plus
  \<^verbatim>\<open>undefined\<close>. An object is the list of its own enumerable properties in the order
  in which \<^verbatim>\<open>Object.keys\<close> enumerates them. Numbers are integers here; the
  manager never computes with them.
\<close>

datatype jsval =
    JUndefined
  | JNull
  | JBool bool
  | JNum int
  | JStr string
  | JArr "jsval list"
  | JObj "(string \<times> jsval) list"

type_synonym jsobj = "(string \<times> jsval) list"

text \<open>The conversion to boolean that \<^verbatim>\<open>if (x)\<close>, \<^verbatim>\<open>x && y\<close> and \<^verbatim>\<open>x || y\<close> apply.\<close>

fun truthy :: "jsval \<Rightarrow> bool" where
  "truthy JUndefined = False"
| "truthy JNull = False"
| "truthy (JBool b) = b"
| "truthy (JNum n) = (n \<noteq> 0)"
| "truthy (JStr s) = (s \<noteq> [])"
| "truthy (JArr xs) = True"
| "truthy (JObj fs) = True"

definition Object_keys :: "jsobj \<Rightarrow> string list" where
  "Object_keys fs = map fst fs"

text \<open>\<^verbatim>\<open>o[k]\<close> on an object: \<^verbatim>\<open>undefined\<close> when the key is absent.\<close>

definition get_prop :: "jsobj \<Rightarrow> string \<Rightarrow> jsval" where
  "get_prop fs k = (case map_of fs k of None \<Rightarrow> JUndefined | Some v \<Rightarrow> v)"

text \<open>
  \<^verbatim>\<open>o[k] = v\<close> for a key that is not an array index (the manager's own keys,
  such as \<^verbatim>\<open>parent\<close>): an existing key keeps its place, a new key goes last.
\<close>

fun set_prop :: "string \<Rightarrow> jsval \<Rightarrow> jsobj \<Rightarrow> jsobj" where
  "set_prop k v [] = [(k, v)]"
| "set_prop k v ((k', v') # fs) =
     (if k' = k then (k, v) # fs else (k', v') # set_prop k v fs)"

text \<open>\<^verbatim>\<open>delete o[k]\<close>.\<close>

definition delete_prop :: "string \<Rightarrow> jsobj \<Rightarrow> jsobj" where
  "delete_prop k fs = filter (\<lambda>kv. fst kv \<noteq> k) fs"

section \<open>Errors\<close>

datatype error =
    Error "int option" jsval
  | TypeError

text \<open>
  \<^verbatim>\<open>Error sc d\<close> is a value some promise was rejected with: \<^verbatim>\<open>sc\<close> is its
  \<^verbatim>\<open>statusCode\<close> property when that is a number, \<^verbatim>\<open>d\<close> the rest of it.
\<close>

fun statusCode_of :: "error \<Rightarrow> int option" where
  "statusCode_of (Error sc d) = sc"
| "statusCode_of TypeError = None"

text \<open>
  \<^verbatim>\<open>v.k\<close> on an arbitrary value, for a key \<^verbatim>\<open>k\<close> that no built-in prototype
  defines: a TypeError on \<^verbatim>\<open>undefined\<close> and \<^verbatim>\<open>null\<close>, the property of an object,
  \<^verbatim>\<open>undefined\<close> on every other value.
\<close>

fun member :: "jsval \<Rightarrow> string \<Rightarrow> error + jsval" where
  "member JUndefined k = Inl TypeError"
| "member JNull k = Inl TypeError"
| "member (JObj fs) k = Inr (get_prop fs k)"
| "member v k = Inr JUndefined"

section \<open>Arguments, the heap of caller-visible objects, requests\<close>

text \<open>
  The manager mutates option objects that its caller still holds, and hands the same
  objects to the HTTP client. Those objects live in a heap, addressed by \<^verbatim>\<open>addr\<close>;
  an optional object argument is \<^verbatim>\<open>undefined\<close>, \<^verbatim>\<open>null\<close> or a reference.
  Property values are stored by value: the manager never mutates below the top level
  of an object it was given.
\<close>

type_synonym addr = nat
type_synonym callback = nat

datatype objarg = Undefined | Null | Object addr

text \<open>
  The third parameter of \<^verbatim>\<open>copy\<close> and the second of \<^verbatim>\<open>deletePermanently\<close>, which
  test \<^verbatim>\<open>typeof options === 'function'\<close>.
\<close>

datatype legacy_options = Callable callback | Plain objarg

text \<open>
  A property of the \<^verbatim>\<open>params\<close> object given to the client: not set, an argument
  passed on as it is (the same object, not a copy), or a value built in place.
\<close>

datatype pfield = Unset | Passed objarg | Literal jsval

record params =
  params_qs :: pfield
  params_body :: pfield
  params_headers :: pfield

datatype http_method = GET | POST | PUT | DELETE

text \<open>
  What reaches the client in one call: the HTTP method, the path, the contents of
  \<^verbatim>\<open>params\<close> at the moment of the call, and the callback handed over (none for a
  call of the bare client method).
\<close>

record request =
  verb :: http_method
  path :: string
  qs :: jsval
  body :: jsval
  headers :: jsval
  callback :: "callback option"

record response =
  statusCode :: int
  response_body :: jsval

text \<open>
  The state a call of the manager runs in: the heap with its next free address, the
  remote side \<^verbatim>\<open>world\<close>, the requests made so far, and the results delivered to
  callbacks through \<^verbatim>\<open>asCallback\<close>. A call of the client answers from the remote
  side and changes only that; between the steps of one call of the manager nothing else
  writes to the heap.
\<close>

record 'w state =
  objs :: "addr \<Rightarrow> jsobj"
  next_addr :: addr
  world :: 'w
  sent :: "request list"
  delivered :: "(callback \<times> (error + jsval)) list"

text \<open>
  The collaborators that \<^verbatim>\<open>folders.ts\<close> imports and does not define:
  \<^verbatim>\<open>urlPath\<close> (util/url-path), \<^verbatim>\<open>errors.buildUnexpectedResponseError\<close>
  (util/errors), the client's methods \<^verbatim>\<open>get\<close>, \<^verbatim>\<open>post\<close>, \<^verbatim>\<open>put\<close>, \<^verbatim>\<open>del\<close>
  (one function of the request, which carries the method), and the same methods under
  \<^verbatim>\<open>client.wrapWithDefaultHandler\<close>. They are parameters of the model.
\<close>

record 'w deps =
  urlPath :: "string list \<Rightarrow> string"
  buildUnexpectedResponseError :: "response \<Rightarrow> error"
  client_method :: "request \<Rightarrow> 'w \<Rightarrow> (error + response) \<times> 'w"
  wrapWithDefaultHandler :: "request \<Rightarrow> 'w \<Rightarrow> (error + jsval) \<times> 'w"

definition BASE_PATH :: string where
  "BASE_PATH = ''/folders''"

definition WATERMARK_SUBRESOURCE :: string where
  "WATERMARK_SUBRESOURCE = ''/watermark''"

definition alloc :: "jsobj \<Rightarrow> 'w state \<Rightarrow> addr \<times> 'w state" where
  "alloc fs st =
     (next_addr st,
      st\<lparr>objs := (objs st)(next_addr st := fs), next_addr := Suc (next_addr st)\<rparr>)"

fun resolve :: "'w state \<Rightarrow> pfield \<Rightarrow> jsval" where
  "resolve st Unset = JUndefined"
| "resolve st (Passed Undefined) = JUndefined"
| "resolve st (Passed Null) = JNull"
| "resolve st (Passed (Object a)) = JObj (objs st a)"
| "resolve st (Literal v) = v"

definition make_request ::
  "'w state \<Rightarrow> http_method \<Rightarrow> string \<Rightarrow> params \<Rightarrow> callback option \<Rightarrow> request" where
  "make_request st m apiPath ps cb =
     \<lparr>verb = m, path = apiPath,
      qs = resolve st (params_qs ps),
      body = resolve st (params_body ps),
      headers = resolve st (params_headers ps),
      callback = cb\<rparr>"

text \<open>\<^verbatim>\<open>this.client.wrapWithDefaultHandler(this.client.m)(apiPath, params, callback)\<close>\<close>

definition wrapped ::
  "'w deps \<Rightarrow> http_method \<Rightarrow> string \<Rightarrow> params \<Rightarrow> callback option \<Rightarrow> 'w state
   \<Rightarrow> (error + jsval) \<times> 'w state" where
  "wrapped env m apiPath ps cb st =
     (let req = make_request st m apiPath ps cb;
          (r, w) = wrapWithDefaultHandler env req (world st)
      in (r, st\<lparr>world := w, sent := sent st @ [req]\<rparr>))"

text \<open>\<^verbatim>\<open>this.client.m(apiPath, params)\<close>\<close>

definition bare ::
  "'w deps \<Rightarrow> http_method \<Rightarrow> string \<Rightarrow> params \<Rightarrow> 'w state
   \<Rightarrow> (error + response) \<times> 'w state" where
  "bare env m apiPath ps st =
     (let req = make_request st m apiPath ps None;
          (r, w) = client_method env req (world st)
      in (r, st\<lparr>world := w, sent := sent st @ [req]\<rparr>))"

text \<open>\<^verbatim>\<open>promise.asCallback(callback)\<close>: the settled result also goes to the callback.\<close>

definition asCallback ::
  "callback option \<Rightarrow> (error + jsval) \<times> 'w state \<Rightarrow> (error + jsval) \<times> 'w state" where
  "asCallback cb rs =
     (case cb of
        None \<Rightarrow> rs
      | Some f \<Rightarrow> (fst rs, (snd rs)\<lparr>delivered := delivered (snd rs) @ [(f, fst rs)]\<rparr>))"

section \<open>The folder manager\<close>

text \<open>\<^verbatim>\<open>Folders.update\<close>, lines 254-280.\<close>

definition update ::
  "'w deps \<Rightarrow> string \<Rightarrow> objarg \<Rightarrow> callback option \<Rightarrow> 'w state
   \<Rightarrow> (error + jsval) \<times> 'w state" where
  "update env folderID updates cb st =
     (let ps = \<lparr>params_qs = Unset, params_body = Passed updates, params_headers = Unset\<rparr>;
          (ps, st) =
            (case updates of
               Object a \<Rightarrow>
                 (let etag = get_prop (objs st a) ''etag'' in
                  if truthy etag
                  then (ps\<lparr>params_headers := Literal (JObj [(''If-Match'', etag)])\<rparr>,
                        st\<lparr>objs := (objs st)(a := delete_prop ''etag'' (objs st a))\<rparr>)
                  else (ps, st))
             | _ \<Rightarrow> (ps, st));
          apiPath = urlPath env [BASE_PATH, folderID]
      in wrapped env PUT apiPath ps cb st)"

text \<open>\<^verbatim>\<open>Folders.delete\<close>, lines 378-403.\<close>

definition delete ::
  "'w deps \<Rightarrow> string \<Rightarrow> objarg \<Rightarrow> callback option \<Rightarrow> 'w state
   \<Rightarrow> (error + jsval) \<times> 'w state" where
  "delete env folderID options cb st =
     (let ps = \<lparr>params_qs = Passed options, params_body = Unset, params_headers = Unset\<rparr>;
          (ps, st) =
            (case options of
               Object a \<Rightarrow>
                 (let etag = get_prop (objs st a) ''etag'' in
                  if truthy etag
                  then (ps\<lparr>params_headers := Literal (JObj [(''If-Match'', etag)])\<rparr>,
                        st\<lparr>objs := (objs st)(a := delete_prop ''etag'' (objs st a))\<rparr>)
                  else (ps, st))
             | _ \<Rightarrow> (ps, st));
          apiPath = urlPath env [BASE_PATH, folderID]
      in wrapped env DELETE apiPath ps cb st)"

text \<open>\<^verbatim>\<open>Folders.get\<close>, lines 101-111.\<close>

definition get ::
  "'w deps \<Rightarrow> string \<Rightarrow> objarg \<Rightarrow> callback option \<Rightarrow> 'w state
   \<Rightarrow> (error + jsval) \<times> 'w state" where
  "get env folderID options cb st =
     (let ps = \<lparr>params_qs = Passed options, params_body = Unset, params_headers = Unset\<rparr>;
          apiPath = urlPath env [BASE_PATH, folderID]
      in wrapped env GET apiPath ps cb st)"

text \<open>
  \<^verbatim>\<open>Folders.copy\<close>, lines 207-240. The object literal \<^verbatim>\<open>{}\<close> that replaces a
  callable or a missing \<^verbatim>\<open>options\<close> is a new object of the heap.
\<close>

definition copy ::
  "'w deps \<Rightarrow> string \<Rightarrow> string \<Rightarrow> legacy_options \<Rightarrow> callback option \<Rightarrow> 'w state
   \<Rightarrow> (error + jsval) \<times> 'w state" where
  "copy env folderID newParentID options cb st =
     (let (cb, options, st) =
            (case options of
               Callable f \<Rightarrow> (let (a, st) = alloc [] st in (Some f, Object a, st))
             | Plain opt \<Rightarrow> (cb, opt, st));
          (a, st) = (case options of Object a \<Rightarrow> (a, st) | _ \<Rightarrow> alloc [] st);
          st = st\<lparr>objs := (objs st)
                 (a := set_prop ''parent'' (JObj [(''id'', JStr newParentID)]) (objs st a))\<rparr>;
          ps = \<lparr>params_qs = Unset, params_body = Passed (Object a), params_headers = Unset\<rparr>;
          apiPath = urlPath env [BASE_PATH, folderID, ''/copy'']
      in wrapped env POST apiPath ps cb st)"

text \<open>
  \<^verbatim>\<open>xs.map(f)\<close> where \<^verbatim>\<open>f\<close> may throw: the first exception ends the loop. On a
  value that is not an array, \<^verbatim>\<open>map\<close> is not a function.
\<close>

fun map_throw :: "(jsval \<Rightarrow> error + jsval) \<Rightarrow> jsval list \<Rightarrow> error + jsval list" where
  "map_throw f [] = Inr []"
| "map_throw f (x # xs) =
     (case f x of
        Inl e \<Rightarrow> Inl e
      | Inr y \<Rightarrow> (case map_throw f xs of Inl e \<Rightarrow> Inl e | Inr ys \<Rightarrow> Inr (y # ys)))"

fun array_map :: "(jsval \<Rightarrow> error + jsval) \<Rightarrow> jsval \<Rightarrow> error + jsval list" where
  "array_map f (JArr xs) = map_throw f xs"
| "array_map f v = Inl TypeError"

text \<open>\<^verbatim>\<open>xs.find(p)\<close>: the first element that satisfies \<^verbatim>\<open>p\<close>, else \<^verbatim>\<open>undefined\<close>.\<close>

definition array_find :: "(jsval \<Rightarrow> bool) \<Rightarrow> jsval list \<Rightarrow> jsval" where
  "array_find p xs = (case find p xs of None \<Rightarrow> JUndefined | Some x \<Rightarrow> x)"

text \<open>\<^verbatim>\<open>(c) => ({ id: c.id })\<close>\<close>

definition id_only :: "jsval \<Rightarrow> error + jsval" where
  "id_only c = (case member c ''id'' of Inl e \<Rightarrow> Inl e | Inr v \<Rightarrow> Inr (JObj [(''id'', v)]))"

text \<open>\<^verbatim>\<open>(c) => c.id === collectionID\<close>\<close>

definition has_id :: "string \<Rightarrow> jsval \<Rightarrow> bool" where
  "has_id collectionID c = (member c ''id'' = Inr (JStr collectionID))"

text \<open>\<^verbatim>\<open>Folders.addToCollection\<close>, lines 293-308.\<close>

definition addToCollection ::
  "'w deps \<Rightarrow> string \<Rightarrow> string \<Rightarrow> callback option \<Rightarrow> 'w state
   \<Rightarrow> (error + jsval) \<times> 'w state" where
  "addToCollection env folderID collectionID cb st =
     asCallback cb
       (let (a, st) = alloc [(''fields'', JStr ''collections'')] st;
            (r, st) = get env folderID (Object a) None st
        in case r of
             Inl err \<Rightarrow> (Inl err, st)
           | Inr data \<Rightarrow>
               (case member data ''collections'' of
                  Inl e \<Rightarrow> (Inl e, st)
                | Inr c \<Rightarrow>
                    (let collections = (if truthy c then c else JArr []) in
                     case array_map id_only collections of
                       Inl e \<Rightarrow> (Inl e, st)
                     | Inr collections \<Rightarrow>
                         (let collections =
                                (if \<not> truthy (array_find (has_id collectionID) collections)
                                 then collections @ [JObj [(''id'', JStr collectionID)]]
                                 else collections);
                              (u, st) = alloc [(''collections'', JArr collections)] st
                          in update env folderID (Object u) None st))))"

text \<open>\<^verbatim>\<open>Folders.removeFromCollection\<close>, lines 321-337.\<close>

definition removeFromCollection ::
  "'w deps \<Rightarrow> string \<Rightarrow> string \<Rightarrow> callback option \<Rightarrow> 'w state
   \<Rightarrow> (error + jsval) \<times> 'w state" where
  "removeFromCollection env folderID collectionID cb st =
     asCallback cb
       (let (a, st) = alloc [(''fields'', JStr ''collections'')] st;
            (r, st) = get env folderID (Object a) None st
        in case r of
             Inl err \<Rightarrow> (Inl err, st)
           | Inr data \<Rightarrow>
               (case member data ''collections'' of
                  Inl e \<Rightarrow> (Inl e, st)
                | Inr c \<Rightarrow>
                    (let collections = (if truthy c then c else JArr []) in
                     case array_map id_only collections of
                       Inl e \<Rightarrow> (Inl e, st)
                     | Inr collections \<Rightarrow>
                         (let collections =
                                filter (\<lambda>c. \<not> has_id collectionID c) collections;
                              (u, st) = alloc [(''collections'', JArr collections)] st
                          in update env folderID (Object u) None st))))"

text \<open>
  \<^verbatim>\<open>Folders.addMetadata\<close>, lines 464-481. The metadata object is read, never
  written, and is passed by value.
\<close>

definition addMetadata ::
  "'w deps \<Rightarrow> string \<Rightarrow> string \<Rightarrow> string \<Rightarrow> jsobj \<Rightarrow> callback option \<Rightarrow> 'w state
   \<Rightarrow> (error + jsval) \<times> 'w state" where
  "addMetadata env folderID scope template data cb st =
     (let apiPath = urlPath env [BASE_PATH, folderID, ''metadata'', scope, template];
          ps = \<lparr>params_qs = Unset, params_body = Literal (JObj data), params_headers = Unset\<rparr>
      in wrapped env POST apiPath ps cb st)"

text \<open>\<^verbatim>\<open>Folders.updateMetadata\<close>, lines 496-516.\<close>

definition updateMetadata ::
  "'w deps \<Rightarrow> string \<Rightarrow> string \<Rightarrow> string \<Rightarrow> jsval \<Rightarrow> callback option \<Rightarrow> 'w state
   \<Rightarrow> (error + jsval) \<times> 'w state" where
  "updateMetadata env folderID scope template patch cb st =
     (let apiPath = urlPath env [BASE_PATH, folderID, ''metadata'', scope, template];
          ps = \<lparr>params_qs = Unset, params_body = Literal patch,
                params_headers =
                  Literal (JObj [(''Content-Type'', JStr ''application/json-patch+json'')])\<rparr>
      in wrapped env PUT apiPath ps cb st)"

text \<open>The entry that \<^verbatim>\<open>setMetadata\<close> builds for one key of the metadata.\<close>

definition patch_entry :: "jsobj \<Rightarrow> string \<Rightarrow> jsval" where
  "patch_entry metadata key =
     JObj [(''op'', JStr ''add''), (''path'', JStr (''/'' @ key)),
           (''value'', get_prop metadata key)]"

text \<open>\<^verbatim>\<open>Folders.setMetadata\<close>, lines 528-551.\<close>

definition setMetadata ::
  "'w deps \<Rightarrow> string \<Rightarrow> string \<Rightarrow> string \<Rightarrow> jsobj \<Rightarrow> callback option \<Rightarrow> 'w state
   \<Rightarrow> (error + jsval) \<times> 'w state" where
  "setMetadata env folderID scope template metadata cb st =
     asCallback cb
       (let (r, st) = addMetadata env folderID scope template metadata None st
        in case r of
             Inr v \<Rightarrow> (Inr v, st)
           | Inl err \<Rightarrow>
               if statusCode_of err \<noteq> Some 409 then (Inl err, st)
               else (let updates = map (patch_entry metadata) (Object_keys metadata)
                     in updateMetadata env folderID scope template (JArr updates) None st))"

text \<open>\<^verbatim>\<open>Folders.restoreFromTrash\<close>, lines 623-651.\<close>

definition restoreFromTrash ::
  "'w deps \<Rightarrow> string \<Rightarrow> objarg \<Rightarrow> callback option \<Rightarrow> 'w state
   \<Rightarrow> (error + jsval) \<times> 'w state" where
  "restoreFromTrash env folderID options cb st =
     (let st =
            (case options of
               Object a \<Rightarrow>
                 (let parent_id = get_prop (objs st a) ''parent_id'' in
                  if truthy parent_id
                  then st\<lparr>objs := (objs st)
                         (a := delete_prop ''parent_id''
                                 (set_prop ''parent'' (JObj [(''id'', parent_id)]) (objs st a)))\<rparr>
                  else st)
             | _ \<Rightarrow> st);
          apiPath = urlPath env [BASE_PATH, folderID];
          ps = \<lparr>params_qs = Unset,
                params_body =
                  (case options of Object a \<Rightarrow> Passed options | _ \<Rightarrow> Literal (JObj [])),
                params_headers = Unset\<rparr>
      in wrapped env POST apiPath ps cb st)"

text \<open>\<^verbatim>\<open>Folders.deletePermanently\<close>, lines 665-693.\<close>

definition deletePermanently ::
  "'w deps \<Rightarrow> string \<Rightarrow> legacy_options \<Rightarrow> callback option \<Rightarrow> 'w state
   \<Rightarrow> (error + jsval) \<times> 'w state" where
  "deletePermanently env folderID options cb st =
     (let (cb, options, st) =
            (case options of
               Callable f \<Rightarrow> (let (a, st) = alloc [] st in (Some f, Object a, st))
             | Plain opt \<Rightarrow> (cb, opt, st));
          ps = \<lparr>params_qs = Unset, params_body = Unset, params_headers = Unset\<rparr>;
          ps =
            (case options of
               Object a \<Rightarrow>
                 (let etag = get_prop (objs st a) ''etag'' in
                  if truthy etag
                  then ps\<lparr>params_headers := Literal (JObj [(''If-Match'', etag)])\<rparr>
                  else ps)
             | _ \<Rightarrow> ps);
          apiPath = urlPath env [BASE_PATH, folderID, ''/trash'']
      in wrapped env DELETE apiPath ps cb st)"

text \<open>\<^verbatim>\<open>Folders.getWatermark\<close>, lines 706-726.\<close>

definition getWatermark ::
  "'w deps \<Rightarrow> string \<Rightarrow> objarg \<Rightarrow> callback option \<Rightarrow> 'w state
   \<Rightarrow> (error + jsval) \<times> 'w state" where
  "getWatermark env folderID options cb st =
     (let apiPath = urlPath env [BASE_PATH, folderID, WATERMARK_SUBRESOURCE];
          ps = \<lparr>params_qs = Passed options, params_body = Unset, params_headers = Unset\<rparr>
      in asCallback cb
           (let (r, st) = bare env GET apiPath ps st
            in case r of
                 Inl err \<Rightarrow> (Inl err, st)
               | Inr response \<Rightarrow>
                   if statusCode response \<noteq> 200
                   then (Inl (buildUnexpectedResponseError env response), st)
                   else (member (response_body response) ''watermark'', st)))"








section \<open>A scripted client\<close>

text \<open>
  A concrete instance of the collaborators, for evaluating the manager on examples: the
  remote side is the list of results the wrapped methods will give and the list the bare
  methods will give, each consumed from the front; \<^verbatim>\<open>join_path\<close> puts a slash before
  each segment that has none.
\<close>

type_synonym script = "(error + jsval) list \<times> (error + response) list"

definition join_path :: "string list \<Rightarrow> string" where
  "join_path segs = concat (map (\<lambda>s. if take 1 s = ''/'' then s else ''/'' @ s) segs)"

definition scripted :: "script deps" where
  "scripted =
     \<lparr>urlPath = join_path,
      buildUnexpectedResponseError = (\<lambda>r. Error (Some (statusCode r)) (response_body r)),
      client_method =
        (\<lambda>req w. case snd w of
                   [] \<Rightarrow> (Inl (Error None JNull), w)
                 | r # rs \<Rightarrow> (r, (fst w, rs))),
      wrapWithDefaultHandler =
        (\<lambda>req w. case fst w of
                   [] \<Rightarrow> (Inl (Error None JNull), w)
                 | r # rs \<Rightarrow> (r, (rs, snd w)))\<rparr>"

text \<open>A state with the objects \<^verbatim>\<open>os\<close> at the addresses \<^verbatim>\<open>0, 1, ...\<close>.\<close>

definition init :: "jsobj list \<Rightarrow> 'w \<Rightarrow> 'w state" where
  "init os w =
     \<lparr>objs = (\<lambda>a. if a < length os then os ! a else []), next_addr = length os,
      world = w, sent = [], delivered = []\<rparr>"

section \<open>Properties\<close>

subsection \<open>Objects and client calls\<close>

lemma map_of_set_prop: "map_of (set_prop k v fs) = (map_of fs)(k \<mapsto> v)"
  by (induction fs) auto

lemma map_of_delete_prop: "map_of (delete_prop k fs) = (map_of fs)(k := None)"
  by (induction fs) (auto simp: delete_prop_def)

lemma keys_delete_prop: "k \<notin> set (Object_keys (delete_prop k fs))"
  by (auto simp: delete_prop_def Object_keys_def)

lemma get_prop_absent: "k \<notin> set (Object_keys fs) \<Longrightarrow> get_prop fs k = JUndefined"
  by (simp add: get_prop_def Object_keys_def map_of_eq_None_iff[THEN iffD2])

lemma sent_wrapped:
  "sent (snd (wrapped env m p ps cb st)) = sent st @ [make_request st m p ps cb]"
  by (simp add: wrapped_def Let_def split: prod.splits)

lemma objs_wrapped: "objs (snd (wrapped env m p ps cb st)) = objs st"
  by (simp add: wrapped_def Let_def split: prod.splits)

lemma fst_wrapped:
  "fst (wrapped env m p ps cb st) =
   fst (wrapWithDefaultHandler env (make_request st m p ps cb) (world st))"
  by (simp add: wrapped_def Let_def split: prod.splits)

lemma scripted_simps:
  "urlPath scripted = join_path"
  "wrapWithDefaultHandler scripted req (r # rs, bs) = (r, (rs, bs))"
  "wrapWithDefaultHandler scripted req ([], bs) = (Inl (Error None JNull), ([], bs))"
  "client_method scripted req (ws, b # bs) = (b, (ws, bs))"
  "client_method scripted req (ws, []) = (Inl (Error None JNull), (ws, []))"
  "buildUnexpectedResponseError scripted resp = Error (Some (statusCode resp)) (response_body resp)"
  by (simp_all add: scripted_def)

lemma init_simps:
  "objs (init os w) = (\<lambda>a. if a < length os then os ! a else [])"
  "next_addr (init os w) = length os"
  "world (init os w) = w"
  "sent (init os w) = []"
  "delivered (init os w) = []"
  by (simp_all add: init_def)

subsection \<open>Conditional requests: \<^verbatim>\<open>update\<close> and \<^verbatim>\<open>delete\<close>\<close>

lemma sent_update_truthy:
  "truthy (get_prop (objs st a) ''etag'') \<Longrightarrow>
   sent (snd (update env folderID (Object a) cb st)) = sent st @
     [\<lparr>verb = PUT, path = urlPath env [BASE_PATH, folderID], qs = JUndefined,
       body = JObj (delete_prop ''etag'' (objs st a)),
       headers = JObj [(''If-Match'', get_prop (objs st a) ''etag'')], callback = cb\<rparr>]"
  by (simp add: update_def Let_def sent_wrapped make_request_def)

lemma sent_update_falsy:
  "\<not> truthy (get_prop (objs st a) ''etag'') \<Longrightarrow>
   sent (snd (update env folderID (Object a) cb st)) = sent st @
     [\<lparr>verb = PUT, path = urlPath env [BASE_PATH, folderID], qs = JUndefined,
       body = JObj (objs st a), headers = JUndefined, callback = cb\<rparr>]"
  by (simp add: update_def Let_def sent_wrapped make_request_def)

lemma sent_delete_truthy:
  "truthy (get_prop (objs st a) ''etag'') \<Longrightarrow>
   sent (snd (delete env folderID (Object a) cb st)) = sent st @
     [\<lparr>verb = DELETE, path = urlPath env [BASE_PATH, folderID],
       qs = JObj (delete_prop ''etag'' (objs st a)), body = JUndefined,
       headers = JObj [(''If-Match'', get_prop (objs st a) ''etag'')], callback = cb\<rparr>]"
  by (simp add: delete_def Let_def sent_wrapped make_request_def)

lemma sent_delete_falsy:
  "\<not> truthy (get_prop (objs st a) ''etag'') \<Longrightarrow>
   sent (snd (delete env folderID (Object a) cb st)) = sent st @
     [\<lparr>verb = DELETE, path = urlPath env [BASE_PATH, folderID],
       qs = JObj (objs st a), body = JUndefined, headers = JUndefined, callback = cb\<rparr>]"
  by (simp add: delete_def Let_def sent_wrapped make_request_def)

lemma sent_update_no_object:
  "opt = Undefined \<or> opt = Null \<Longrightarrow>
   sent (snd (update env folderID opt cb st)) = sent st @
     [\<lparr>verb = PUT, path = urlPath env [BASE_PATH, folderID], qs = JUndefined,
       body = resolve st (Passed opt), headers = JUndefined, callback = cb\<rparr>]"
  by (auto simp: update_def Let_def sent_wrapped make_request_def)

lemma sent_delete_no_object:
  "opt = Undefined \<or> opt = Null \<Longrightarrow>
   sent (snd (delete env folderID opt cb st)) = sent st @
     [\<lparr>verb = DELETE, path = urlPath env [BASE_PATH, folderID],
       qs = resolve st (Passed opt), body = JUndefined, headers = JUndefined,
       callback = cb\<rparr>]"
  by (auto simp: delete_def Let_def sent_wrapped make_request_def)

text \<open>
  Claim C3, as the code has it. \<^verbatim>\<open>update\<close> (on its \<^verbatim>\<open>updates\<close> body) and
  \<^verbatim>\<open>delete\<close> (on its \<^verbatim>\<open>options\<close> query) test \<^verbatim>\<open>x && x.etag\<close>: when the
  etag of the input is truthy, the one request made carries the header
  \<^verbatim>\<open>If-Match\<close> with that etag, and its body (query) is the input without the
  \<^verbatim>\<open>etag\<close> key; when the etag is falsy, the request has no headers and carries the
  input as it is; an input without an \<^verbatim>\<open>etag\<close> key is such an input. An input
  that is \<^verbatim>\<open>undefined\<close> or \<^verbatim>\<open>null\<close> is passed on with no headers.
\<close>

theorem update_delete_etag:
  "(truthy (get_prop (objs st a) ''etag'') \<longrightarrow>
      sent (snd (update env folderID (Object a) cb st)) = sent st @
        [\<lparr>verb = PUT, path = urlPath env [BASE_PATH, folderID], qs = JUndefined,
          body = JObj (delete_prop ''etag'' (objs st a)),
          headers = JObj [(''If-Match'', get_prop (objs st a) ''etag'')], callback = cb\<rparr>] \<and>
      sent (snd (delete env folderID (Object a) cb st)) = sent st @
        [\<lparr>verb = DELETE, path = urlPath env [BASE_PATH, folderID],
          qs = JObj (delete_prop ''etag'' (objs st a)), body = JUndefined,
          headers = JObj [(''If-Match'', get_prop (objs st a) ''etag'')], callback = cb\<rparr>] \<and>
      ''etag'' \<notin> set (Object_keys (delete_prop ''etag'' (objs st a)))) \<and>
   (\<not> truthy (get_prop (objs st a) ''etag'') \<longrightarrow>
      sent (snd (update env folderID (Object a) cb st)) = sent st @
        [\<lparr>verb = PUT, path = urlPath env [BASE_PATH, folderID], qs = JUndefined,
          body = JObj (objs st a), headers = JUndefined, callback = cb\<rparr>] \<and>
      sent (snd (delete env folderID (Object a) cb st)) = sent st @
        [\<lparr>verb = DELETE, path = urlPath env [BASE_PATH, folderID],
          qs = JObj (objs st a), body = JUndefined, headers = JUndefined, callback = cb\<rparr>]) \<and>
   (''etag'' \<notin> set (Object_keys (objs st a)) \<longrightarrow> \<not> truthy (get_prop (objs st a) ''etag'')) \<and>
   (opt = Undefined \<or> opt = Null \<longrightarrow>
      sent (snd (update env folderID opt cb st)) = sent st @
        [\<lparr>verb = PUT, path = urlPath env [BASE_PATH, folderID], qs = JUndefined,
          body = resolve st (Passed opt), headers = JUndefined, callback = cb\<rparr>] \<and>
      sent (snd (delete env folderID opt cb st)) = sent st @
        [\<lparr>verb = DELETE, path = urlPath env [BASE_PATH, folderID],
          qs = resolve st (Passed opt), body = JUndefined, headers = JUndefined,
          callback = cb\<rparr>])"
  using sent_update_truthy [of st a env folderID cb] sent_update_falsy [of st a env folderID cb]
    sent_delete_truthy [of st a env folderID cb] sent_delete_falsy [of st a env folderID cb]
    keys_delete_prop [of "''etag''" "objs st a"] get_prop_absent [of "''etag''" "objs st a"]
    sent_update_no_object [of opt env folderID cb st]
    sent_delete_no_object [of opt env folderID cb st]
  by simp

theorem update_delete_etag_witness:
  "truthy (get_prop (objs (init [[(''name'', JStr ''n''), (''etag'', JStr ''e1'')]] ([], [])) 0) ''etag'') \<and>
   sent (snd (update scripted ''7'' (Object 0) None
           (init [[(''name'', JStr ''n''), (''etag'', JStr ''e1'')]] ([], [])))) =
     [\<lparr>verb = PUT, path = ''/folders/7'', qs = JUndefined,
       body = JObj [(''name'', JStr ''n'')],
       headers = JObj [(''If-Match'', JStr ''e1'')], callback = None\<rparr>] \<and>
   \<not> truthy (get_prop (objs (init [[(''name'', JStr ''n'')]] ([], [])) 0) ''etag'') \<and>
   ''etag'' \<notin> set (Object_keys (objs (init [[(''name'', JStr ''n'')]] ([], [])) 0)) \<and>
   sent (snd (delete scripted ''7'' (Object 0) None (init [[(''name'', JStr ''n'')]] ([], [])))) =
     [\<lparr>verb = DELETE, path = ''/folders/7'', qs = JObj [(''name'', JStr ''n'')],
       body = JUndefined, headers = JUndefined, callback = None\<rparr>]"
  using update_delete_etag [where env = scripted and folderID = "''7''" and a = 0
      and cb = None and opt = "Object 0"
      and st = "init [[(''name'', JStr ''n''), (''etag'', JStr ''e1'')]] ([], [])"]
    update_delete_etag [where env = scripted and folderID = "''7''" and a = 0
      and cb = None and opt = "Object 0" and st = "init [[(''name'', JStr ''n'')]] ([], [])"]
  by (simp add: init_simps scripted_simps get_prop_def delete_prop_def Object_keys_def
      join_path_def BASE_PATH_def)

text \<open>
  Claim C3 as stated fails: \<^verbatim>\<open>update('7', {etag: ''})\<close> has an \<^verbatim>\<open>etag\<close> key, yet the
  request has no \<^verbatim>\<open>If-Match\<close> header and its body still holds the \<^verbatim>\<open>etag\<close> field.
\<close>

theorem update_empty_etag_counterexample:
  "map_of [(''etag'', JStr '''')] ''etag'' = Some (JStr '''') \<and>
   sent (snd (update scripted ''7'' (Object 0) None (init [[(''etag'', JStr '''')]] ([], [])))) =
     [\<lparr>verb = PUT, path = ''/folders/7'', qs = JUndefined,
       body = JObj [(''etag'', JStr '''')], headers = JUndefined, callback = None\<rparr>]"
  by (simp add: update_def Let_def sent_wrapped make_request_def init_simps scripted_simps
      get_prop_def join_path_def BASE_PATH_def)

subsection \<open>\<^verbatim>\<open>copy\<close>\<close>

lemma copy_Callable:
  "copy env folderID newParentID (Callable f) cb st =
   copy env folderID newParentID (Plain (Object (fst (alloc [] st)))) (Some f) (snd (alloc [] st))"
  by (simp add: copy_def Let_def alloc_def)

lemma copy_Object:
  "copy env folderID newParentID (Plain (Object a)) cb st =
   wrapped env POST (urlPath env [BASE_PATH, folderID, ''/copy''])
     \<lparr>params_qs = Unset, params_body = Passed (Object a), params_headers = Unset\<rparr> cb
     (st\<lparr>objs := (objs st)
          (a := set_prop ''parent'' (JObj [(''id'', JStr newParentID)]) (objs st a))\<rparr>)"
  by (simp add: copy_def Let_def)

lemma copy_Undefined:
  "copy env folderID newParentID (Plain Undefined) cb st =
   copy env folderID newParentID (Plain (Object (fst (alloc [] st)))) cb (snd (alloc [] st))"
  by (simp add: copy_def Let_def alloc_def)

lemma copy_Null:
  "copy env folderID newParentID (Plain Null) cb st =
   copy env folderID newParentID (Plain (Object (fst (alloc [] st)))) cb (snd (alloc [] st))"
  by (simp add: copy_def Let_def alloc_def)

lemma sent_copy_Object:
  "sent (snd (copy env folderID newParentID (Plain (Object a)) cb st)) = sent st @
     [\<lparr>verb = POST, path = urlPath env [BASE_PATH, folderID, ''/copy''], qs = JUndefined,
       body = JObj (set_prop ''parent'' (JObj [(''id'', JStr newParentID)]) (objs st a)),
       headers = JUndefined, callback = cb\<rparr>]"
  by (simp add: copy_Object sent_wrapped make_request_def)

lemma sent_copy_fresh:
  "sent (snd (copy env folderID newParentID (Plain (Object (fst (alloc [] st)))) cb
           (snd (alloc [] st)))) = sent st @
     [\<lparr>verb = POST, path = urlPath env [BASE_PATH, folderID, ''/copy''], qs = JUndefined,
       body = JObj [(''parent'', JObj [(''id'', JStr newParentID)])],
       headers = JUndefined, callback = cb\<rparr>]"
  by (simp add: sent_copy_Object alloc_def)

text \<open>
  Claim C6. \<^verbatim>\<open>copy\<close> with a callable as its third argument is \<^verbatim>\<open>copy\<close> with a new
  empty object as options and that callable as the callback, whatever the fourth
  argument was. In both cases, and for every options object (or none), the one request
  made is a POST to the path built from \<^verbatim>\<open>'/folders'\<close>, the folder id and
  \<^verbatim>\<open>'/copy'\<close>, whose body is the options object with its \<^verbatim>\<open>parent\<close> key set to
  \<^verbatim>\<open>{id: newParentID}\<close>.
\<close>

theorem copy_legacy_arguments:
  "copy env folderID newParentID (Callable f) cb st =
     copy env folderID newParentID (Plain (Object (fst (alloc [] st)))) (Some f)
       (snd (alloc [] st)) \<and>
   sent (snd (copy env folderID newParentID (Callable f) cb st)) = sent st @
     [\<lparr>verb = POST, path = urlPath env [BASE_PATH, folderID, ''/copy''], qs = JUndefined,
       body = JObj [(''parent'', JObj [(''id'', JStr newParentID)])],
       headers = JUndefined, callback = Some f\<rparr>] \<and>
   sent (snd (copy env folderID newParentID (Plain (Object a)) cb st)) = sent st @
     [\<lparr>verb = POST, path = urlPath env [BASE_PATH, folderID, ''/copy''], qs = JUndefined,
       body = JObj (set_prop ''parent'' (JObj [(''id'', JStr newParentID)]) (objs st a)),
       headers = JUndefined, callback = cb\<rparr>] \<and>
   map_of (set_prop ''parent'' (JObj [(''id'', JStr newParentID)]) (objs st a)) =
     (map_of (objs st a))(''parent'' \<mapsto> JObj [(''id'', JStr newParentID)]) \<and>
   sent (snd (copy env folderID newParentID (Plain Undefined) cb st)) = sent st @
     [\<lparr>verb = POST, path = urlPath env [BASE_PATH, folderID, ''/copy''], qs = JUndefined,
       body = JObj [(''parent'', JObj [(''id'', JStr newParentID)])],
       headers = JUndefined, callback = cb\<rparr>] \<and>
   sent (snd (copy env folderID newParentID (Plain Null) cb st)) = sent st @
     [\<lparr>verb = POST, path = urlPath env [BASE_PATH, folderID, ''/copy''], qs = JUndefined,
       body = JObj [(''parent'', JObj [(''id'', JStr newParentID)])],
       headers = JUndefined, callback = cb\<rparr>]"
  using copy_Callable [of env folderID newParentID f cb st]
    copy_Undefined [of env folderID newParentID cb st]
    copy_Null [of env folderID newParentID cb st]
    sent_copy_fresh [where env = env and folderID = folderID and newParentID = newParentID
      and cb = cb and st = st]
    sent_copy_fresh [where env = env and folderID = folderID and newParentID = newParentID
      and cb = "Some f" and st = st]
    sent_copy_Object [of env folderID newParentID a cb st]
    map_of_set_prop [of "''parent''" "JObj [(''id'', JStr newParentID)]" "objs st a"]
  by simp

theorem copy_legacy_arguments_witness:
  "sent (snd (copy scripted ''7'' ''0'' (Callable 3) None (init [] ([Inr JNull], [])))) =
     [\<lparr>verb = POST, path = ''/folders/7/copy'', qs = JUndefined,
       body = JObj [(''parent'', JObj [(''id'', JStr ''0'')])],
       headers = JUndefined, callback = Some 3\<rparr>] \<and>
   sent (snd (copy scripted ''7'' ''0'' (Plain (Object 0)) (Some 3)
                (init [[(''name'', JStr ''n'')]] ([Inr JNull], [])))) =
     [\<lparr>verb = POST, path = ''/folders/7/copy'', qs = JUndefined,
       body = JObj [(''name'', JStr ''n''), (''parent'', JObj [(''id'', JStr ''0'')])],
       headers = JUndefined, callback = Some 3\<rparr>]"
  using copy_legacy_arguments [where env = scripted and folderID = "''7''" and newParentID = "''0''"
      and f = 3 and cb = None and st = "init [] ([Inr JNull], [])" and a = 0, THEN conjunct2]
    copy_legacy_arguments [where env = scripted and folderID = "''7''" and newParentID = "''0''"
      and f = 3 and cb = "Some 3" and st = "init [[(''name'', JStr ''n'')]] ([Inr JNull], [])"
      and a = 0, THEN conjunct2]
  by (simp add: init_simps scripted_simps join_path_def BASE_PATH_def)

subsection \<open>What happens to the caller's options object\<close>

lemma objs_delete_truthy:
  "truthy (get_prop (objs st a) ''etag'') \<Longrightarrow>
   objs (snd (delete env folderID (Object a) cb st)) =
     (objs st)(a := delete_prop ''etag'' (objs st a))"
  by (simp add: delete_def Let_def objs_wrapped)

lemma objs_delete_falsy:
  "\<not> truthy (get_prop (objs st a) ''etag'') \<Longrightarrow>
   objs (snd (delete env folderID (Object a) cb st)) = objs st"
  by (simp add: delete_def Let_def objs_wrapped)

lemma objs_copy_Object:
  "objs (snd (copy env folderID newParentID (Plain (Object a)) cb st)) =
     (objs st)(a := set_prop ''parent'' (JObj [(''id'', JStr newParentID)]) (objs st a))"
  by (simp add: copy_Object objs_wrapped)

lemma get_prop_set_prop: "get_prop (set_prop k v fs) k = v"
  by (simp add: get_prop_def map_of_set_prop)

lemma deletePermanently_Callable:
  "deletePermanently env folderID (Callable f) cb st =
   deletePermanently env folderID (Plain (Object (fst (alloc [] st)))) (Some f)
     (snd (alloc [] st))"
  by (simp add: deletePermanently_def Let_def alloc_def)

lemma deletePermanently_truthy:
  "truthy (get_prop (objs st a) ''etag'') \<Longrightarrow>
   deletePermanently env folderID (Plain (Object a)) cb st =
   wrapped env DELETE (urlPath env [BASE_PATH, folderID, ''/trash''])
     \<lparr>params_qs = Unset, params_body = Unset,
      params_headers = Literal (JObj [(''If-Match'', get_prop (objs st a) ''etag'')])\<rparr> cb st"
  by (simp add: deletePermanently_def Let_def)

lemma deletePermanently_falsy:
  "\<not> truthy (get_prop (objs st a) ''etag'') \<Longrightarrow>
   deletePermanently env folderID (Plain (Object a)) cb st =
   wrapped env DELETE (urlPath env [BASE_PATH, folderID, ''/trash''])
     \<lparr>params_qs = Unset, params_body = Unset, params_headers = Unset\<rparr> cb st"
  by (simp add: deletePermanently_def Let_def)

lemma deletePermanently_no_object:
  "opt = Undefined \<or> opt = Null \<Longrightarrow>
   deletePermanently env folderID (Plain opt) cb st =
   wrapped env DELETE (urlPath env [BASE_PATH, folderID, ''/trash''])
     \<lparr>params_qs = Unset, params_body = Unset, params_headers = Unset\<rparr> cb st"
  by (auto simp: deletePermanently_def Let_def)

lemma objs_deletePermanently_Plain:
  "objs (snd (deletePermanently env folderID (Plain opt) cb st)) = objs st"
proof (cases opt)
  case (Object a)
  then show ?thesis
    by (cases "truthy (get_prop (objs st a) ''etag'')")
      (simp_all add: deletePermanently_truthy deletePermanently_falsy objs_wrapped)
qed (simp_all add: deletePermanently_no_object objs_wrapped)

text \<open>
  Claim C4, as the code has it. \<^verbatim>\<open>copy\<close>, given an options object, sets the
  \<^verbatim>\<open>parent\<close> key of that object to \<^verbatim>\<open>{id: newParentID}\<close> in place; \<^verbatim>\<open>delete\<close>,
  given an options object whose etag is truthy, removes the \<^verbatim>\<open>etag\<close> key from that
  object in place, and otherwise leaves the heap as it is; \<^verbatim>\<open>deletePermanently\<close>
  leaves the heap, hence the caller's options object, as it is.
\<close>

theorem options_mutated_in_place:
  "objs (snd (copy env folderID newParentID (Plain (Object a)) cb st)) =
     (objs st)(a := set_prop ''parent'' (JObj [(''id'', JStr newParentID)]) (objs st a)) \<and>
   get_prop (objs (snd (copy env folderID newParentID (Plain (Object a)) cb st)) a) ''parent'' =
     JObj [(''id'', JStr newParentID)] \<and>
   (truthy (get_prop (objs st a) ''etag'') \<longrightarrow>
      objs (snd (delete env folderID (Object a) cb st)) =
        (objs st)(a := delete_prop ''etag'' (objs st a))) \<and>
   (\<not> truthy (get_prop (objs st a) ''etag'') \<longrightarrow>
      objs (snd (delete env folderID (Object a) cb st)) = objs st) \<and>
   objs (snd (deletePermanently env folderID (Plain opt) cb st)) = objs st"
  using objs_copy_Object [of env folderID newParentID a cb st]
    objs_delete_truthy [of st a env folderID cb] objs_delete_falsy [of st a env folderID cb]
    objs_deletePermanently_Plain [of env folderID opt cb st]
  by (simp add: get_prop_set_prop)

theorem options_mutated_in_place_witness:
  "objs (snd (copy scripted ''7'' ''0'' (Plain (Object 0)) None
           (init [[(''name'', JStr ''n'')]] ([], [])))) 0 =
     [(''name'', JStr ''n''), (''parent'', JObj [(''id'', JStr ''0'')])] \<and>
   truthy (get_prop (objs (init [[(''etag'', JStr ''e1''), (''x'', JNum 1)]] ([], [])) 0) ''etag'') \<and>
   objs (snd (delete scripted ''7'' (Object 0) None
           (init [[(''etag'', JStr ''e1''), (''x'', JNum 1)]] ([], [])))) 0 = [(''x'', JNum 1)] \<and>
   \<not> truthy (get_prop (objs (init [[(''name'', JStr ''n'')]] ([], [])) 0) ''etag'') \<and>
   objs (snd (delete scripted ''7'' (Object 0) None
           (init [[(''name'', JStr ''n'')]] ([], [])))) 0 = [(''name'', JStr ''n'')] \<and>
   objs (snd (deletePermanently scripted ''7'' (Plain (Object 0)) None
           (init [[(''etag'', JStr ''e1''), (''x'', JNum 1)]] ([], [])))) 0 =
     [(''etag'', JStr ''e1''), (''x'', JNum 1)]"
  using options_mutated_in_place [where env = scripted and folderID = "''7''"
      and newParentID = "''0''" and a = 0 and cb = None and opt = "Object 0"
      and st = "init [[(''name'', JStr ''n'')]] ([], [])"]
    options_mutated_in_place [where env = scripted and folderID = "''7''"
      and newParentID = "''0''" and a = 0 and cb = None and opt = "Object 0"
      and st = "init [[(''etag'', JStr ''e1''), (''x'', JNum 1)]] ([], [])"]
  by (simp add: init_simps get_prop_def delete_prop_def)

text \<open>
  Claim C4 as stated fails for \<^verbatim>\<open>deletePermanently\<close>: called with the options object
  \<^verbatim>\<open>{etag: 'e1'}\<close>, it leaves that object as it was.
\<close>

theorem deletePermanently_keeps_options_counterexample:
  "objs (init [[(''etag'', JStr ''e1'')]] ([], [])) 0 = [(''etag'', JStr ''e1'')] \<and>
   objs (snd (deletePermanently scripted ''7'' (Plain (Object 0)) None
           (init [[(''etag'', JStr ''e1'')]] ([], [])))) 0 = [(''etag'', JStr ''e1'')]"
  by (simp add: deletePermanently_def Let_def objs_wrapped init_simps get_prop_def)

subsection \<open>\<^verbatim>\<open>deletePermanently\<close>\<close>

lemma sent_deletePermanently_truthy:
  "truthy (get_prop (objs st a) ''etag'') \<Longrightarrow>
   sent (snd (deletePermanently env folderID (Plain (Object a)) cb st)) = sent st @
     [\<lparr>verb = DELETE, path = urlPath env [BASE_PATH, folderID, ''/trash''],
       qs = JUndefined, body = JUndefined,
       headers = JObj [(''If-Match'', get_prop (objs st a) ''etag'')], callback = cb\<rparr>]"
  by (simp add: deletePermanently_truthy sent_wrapped make_request_def)

lemma sent_deletePermanently_falsy:
  "\<not> truthy (get_prop (objs st a) ''etag'') \<Longrightarrow>
   sent (snd (deletePermanently env folderID (Plain (Object a)) cb st)) = sent st @
     [\<lparr>verb = DELETE, path = urlPath env [BASE_PATH, folderID, ''/trash''],
       qs = JUndefined, body = JUndefined, headers = JUndefined, callback = cb\<rparr>]"
  by (simp add: deletePermanently_falsy sent_wrapped make_request_def)

lemma sent_deletePermanently_no_object:
  "opt = Undefined \<or> opt = Null \<Longrightarrow>
   sent (snd (deletePermanently env folderID (Plain opt) cb st)) = sent st @
     [\<lparr>verb = DELETE, path = urlPath env [BASE_PATH, folderID, ''/trash''],
       qs = JUndefined, body = JUndefined, headers = JUndefined, callback = cb\<rparr>]"
  by (simp add: deletePermanently_no_object sent_wrapped make_request_def)

lemma sent_deletePermanently_Callable:
  "sent (snd (deletePermanently env folderID (Callable f) cb st)) = sent st @
     [\<lparr>verb = DELETE, path = urlPath env [BASE_PATH, folderID, ''/trash''],
       qs = JUndefined, body = JUndefined, headers = JUndefined, callback = Some f\<rparr>]"
  by (simp add: deletePermanently_Callable sent_deletePermanently_falsy alloc_def get_prop_def)

text \<open>
  Claim C5, as the code has it. \<^verbatim>\<open>deletePermanently\<close> with a callable in the place of
  the options is \<^verbatim>\<open>deletePermanently\<close> with a new empty object as options and that
  callable as the callback. The one request made is a DELETE to the path built from
  \<^verbatim>\<open>'/folders'\<close>, the folder id and \<^verbatim>\<open>'/trash'\<close>, with neither query nor body. When
  the etag of the options is truthy, the request carries the header \<^verbatim>\<open>If-Match\<close>
  with that etag, and the options object keeps its \<^verbatim>\<open>etag\<close> key; when the etag is
  falsy or there are no options, the request has no headers.
\<close>

theorem deletePermanently_request:
  "deletePermanently env folderID (Callable f) cb st =
     deletePermanently env folderID (Plain (Object (fst (alloc [] st)))) (Some f)
       (snd (alloc [] st)) \<and>
   sent (snd (deletePermanently env folderID (Callable f) cb st)) = sent st @
     [\<lparr>verb = DELETE, path = urlPath env [BASE_PATH, folderID, ''/trash''],
       qs = JUndefined, body = JUndefined, headers = JUndefined, callback = Some f\<rparr>] \<and>
   (truthy (get_prop (objs st a) ''etag'') \<longrightarrow>
      sent (snd (deletePermanently env folderID (Plain (Object a)) cb st)) = sent st @
        [\<lparr>verb = DELETE, path = urlPath env [BASE_PATH, folderID, ''/trash''],
          qs = JUndefined, body = JUndefined,
          headers = JObj [(''If-Match'', get_prop (objs st a) ''etag'')], callback = cb\<rparr>] \<and>
      get_prop (objs (snd (deletePermanently env folderID (Plain (Object a)) cb st)) a)
        ''etag'' = get_prop (objs st a) ''etag'') \<and>
   (\<not> truthy (get_prop (objs st a) ''etag'') \<longrightarrow>
      sent (snd (deletePermanently env folderID (Plain (Object a)) cb st)) = sent st @
        [\<lparr>verb = DELETE, path = urlPath env [BASE_PATH, folderID, ''/trash''],
          qs = JUndefined, body = JUndefined, headers = JUndefined, callback = cb\<rparr>]) \<and>
   (opt = Undefined \<or> opt = Null \<longrightarrow>
      sent (snd (deletePermanently env folderID (Plain opt) cb st)) = sent st @
        [\<lparr>verb = DELETE, path = urlPath env [BASE_PATH, folderID, ''/trash''],
          qs = JUndefined, body = JUndefined, headers = JUndefined, callback = cb\<rparr>]) \<and>
   objs (snd (deletePermanently env folderID (Plain opt) cb st)) = objs st"
  using deletePermanently_Callable [of env folderID f cb st]
    sent_deletePermanently_Callable [of env folderID f cb st]
    sent_deletePermanently_truthy [of st a env folderID cb]
    sent_deletePermanently_falsy [of st a env folderID cb]
    sent_deletePermanently_no_object [of opt env folderID cb st]
    objs_deletePermanently_Plain [of env folderID "Object a" cb st]
    objs_deletePermanently_Plain [of env folderID opt cb st]
  by simp

theorem deletePermanently_request_witness:
  "sent (snd (deletePermanently scripted ''7'' (Callable 3) None
           (init [[(''etag'', JStr ''e1'')]] ([], [])))) =
     [\<lparr>verb = DELETE, path = ''/folders/7/trash'', qs = JUndefined, body = JUndefined,
       headers = JUndefined, callback = Some 3\<rparr>] \<and>
   truthy (get_prop (objs (init [[(''etag'', JStr ''e1'')]] ([], [])) 0) ''etag'') \<and>
   sent (snd (deletePermanently scripted ''7'' (Plain (Object 0)) None
           (init [[(''etag'', JStr ''e1'')]] ([], [])))) =
     [\<lparr>verb = DELETE, path = ''/folders/7/trash'', qs = JUndefined, body = JUndefined,
       headers = JObj [(''If-Match'', JStr ''e1'')], callback = None\<rparr>] \<and>
   get_prop (objs (snd (deletePermanently scripted ''7'' (Plain (Object 0)) None
           (init [[(''etag'', JStr ''e1'')]] ([], [])))) 0) ''etag'' = JStr ''e1'' \<and>
   \<not> truthy (get_prop (objs (init [[(''name'', JStr ''n'')]] ([], [])) 0) ''etag'') \<and>
   sent (snd (deletePermanently scripted ''7'' (Plain (Object 0)) None
           (init [[(''name'', JStr ''n'')]] ([], [])))) =
     [\<lparr>verb = DELETE, path = ''/folders/7/trash'', qs = JUndefined, body = JUndefined,
       headers = JUndefined, callback = None\<rparr>] \<and>
   sent (snd (deletePermanently scripted ''7'' (Plain Undefined) None
           (init [[(''name'', JStr ''n'')]] ([], [])))) =
     [\<lparr>verb = DELETE, path = ''/folders/7/trash'', qs = JUndefined, body = JUndefined,
       headers = JUndefined, callback = None\<rparr>]"
  using deletePermanently_request [where env = scripted and folderID = "''7''" and f = 3
      and cb = None and a = 0 and opt = Undefined
      and st = "init [[(''etag'', JStr ''e1'')]] ([], [])", THEN conjunct2]
    deletePermanently_request [where env = scripted and folderID = "''7''" and f = 3
      and cb = None and a = 0 and opt = Undefined
      and st = "init [[(''name'', JStr ''n'')]] ([], [])", THEN conjunct2]
  by (simp add: init_simps scripted_simps get_prop_def join_path_def BASE_PATH_def)

text \<open>
  Claim C5 as stated fails: \<^verbatim>\<open>deletePermanently('7', {etag: ''})\<close> has an \<^verbatim>\<open>etag\<close>
  key, yet the request carries no \<^verbatim>\<open>If-Match\<close> header.
\<close>

theorem deletePermanently_empty_etag_counterexample:
  "map_of [(''etag'', JStr '''')] ''etag'' = Some (JStr '''') \<and>
   sent (snd (deletePermanently scripted ''7'' (Plain (Object 0)) None
           (init [[(''etag'', JStr '''')]] ([], [])))) =
     [\<lparr>verb = DELETE, path = ''/folders/7/trash'', qs = JUndefined, body = JUndefined,
       headers = JUndefined, callback = None\<rparr>]"
  by (simp add: deletePermanently_def Let_def sent_wrapped make_request_def init_simps
      scripted_simps get_prop_def join_path_def BASE_PATH_def)

subsection \<open>\<^verbatim>\<open>restoreFromTrash\<close>\<close>

lemma restoreFromTrash_truthy:
  "truthy (get_prop (objs st a) ''parent_id'') \<Longrightarrow>
   restoreFromTrash env folderID (Object a) cb st =
   wrapped env POST (urlPath env [BASE_PATH, folderID])
     \<lparr>params_qs = Unset, params_body = Passed (Object a), params_headers = Unset\<rparr> cb
     (st\<lparr>objs := (objs st)
          (a := delete_prop ''parent_id''
                  (set_prop ''parent'' (JObj [(''id'', get_prop (objs st a) ''parent_id'')])
                     (objs st a)))\<rparr>)"
  by (simp add: restoreFromTrash_def Let_def)

lemma restoreFromTrash_falsy:
  "\<not> truthy (get_prop (objs st a) ''parent_id'') \<Longrightarrow>
   restoreFromTrash env folderID (Object a) cb st =
   wrapped env POST (urlPath env [BASE_PATH, folderID])
     \<lparr>params_qs = Unset, params_body = Passed (Object a), params_headers = Unset\<rparr> cb st"
  by (simp add: restoreFromTrash_def Let_def)

lemma restoreFromTrash_no_object:
  "opt = Undefined \<or> opt = Null \<Longrightarrow>
   restoreFromTrash env folderID opt cb st =
   wrapped env POST (urlPath env [BASE_PATH, folderID])
     \<lparr>params_qs = Unset, params_body = Literal (JObj []), params_headers = Unset\<rparr> cb st"
  by (auto simp: restoreFromTrash_def Let_def)

text \<open>
  Claim C9, as the code has it. \<^verbatim>\<open>restoreFromTrash\<close> makes one POST to the path built
  from \<^verbatim>\<open>'/folders'\<close> and the folder id. When the \<^verbatim>\<open>parent_id\<close> of the options is
  truthy, the body is the options object with \<^verbatim>\<open>parent\<close> set to
  \<^verbatim>\<open>{id: parent_id}\<close> and the \<^verbatim>\<open>parent_id\<close> key removed, every other key as it was;
  when it is falsy or absent, the body is the options object as it is; without options
  the body is \<^verbatim>\<open>{}\<close>.
\<close>

theorem restoreFromTrash_body:
  "(truthy (get_prop (objs st a) ''parent_id'') \<longrightarrow>
      sent (snd (restoreFromTrash env folderID (Object a) cb st)) = sent st @
        [\<lparr>verb = POST, path = urlPath env [BASE_PATH, folderID], qs = JUndefined,
          body = JObj (delete_prop ''parent_id''
                   (set_prop ''parent'' (JObj [(''id'', get_prop (objs st a) ''parent_id'')])
                      (objs st a))),
          headers = JUndefined, callback = cb\<rparr>] \<and>
      map_of (delete_prop ''parent_id''
                (set_prop ''parent'' (JObj [(''id'', get_prop (objs st a) ''parent_id'')])
                   (objs st a))) =
        (map_of (objs st a))
          (''parent'' \<mapsto> JObj [(''id'', get_prop (objs st a) ''parent_id'')],
           ''parent_id'' := None)) \<and>
   (\<not> truthy (get_prop (objs st a) ''parent_id'') \<longrightarrow>
      sent (snd (restoreFromTrash env folderID (Object a) cb st)) = sent st @
        [\<lparr>verb = POST, path = urlPath env [BASE_PATH, folderID], qs = JUndefined,
          body = JObj (objs st a), headers = JUndefined, callback = cb\<rparr>]) \<and>
   (opt = Undefined \<or> opt = Null \<longrightarrow>
      sent (snd (restoreFromTrash env folderID opt cb st)) = sent st @
        [\<lparr>verb = POST, path = urlPath env [BASE_PATH, folderID], qs = JUndefined,
          body = JObj [], headers = JUndefined, callback = cb\<rparr>])"
  by (simp add: restoreFromTrash_truthy restoreFromTrash_falsy restoreFromTrash_no_object
      sent_wrapped make_request_def map_of_set_prop map_of_delete_prop)

theorem restoreFromTrash_body_witness:
  "truthy (get_prop (objs (init [[(''parent_id'', JStr ''5''), (''name'', JStr ''x'')]] ([], [])) 0)
     ''parent_id'') \<and>
   sent (snd (restoreFromTrash scripted ''7'' (Object 0) None
           (init [[(''parent_id'', JStr ''5''), (''name'', JStr ''x'')]] ([], [])))) =
     [\<lparr>verb = POST, path = ''/folders/7'', qs = JUndefined,
       body = JObj [(''name'', JStr ''x''), (''parent'', JObj [(''id'', JStr ''5'')])],
       headers = JUndefined, callback = None\<rparr>] \<and>
   map_of [(''name'', JStr ''x''), (''parent'', JObj [(''id'', JStr ''5'')])] =
     (map_of [(''parent_id'', JStr ''5''), (''name'', JStr ''x'')])
       (''parent'' \<mapsto> JObj [(''id'', JStr ''5'')], ''parent_id'' := None) \<and>
   \<not> truthy (get_prop (objs (init [[(''name'', JStr ''x'')]] ([], [])) 0) ''parent_id'') \<and>
   sent (snd (restoreFromTrash scripted ''7'' (Object 0) None
           (init [[(''name'', JStr ''x'')]] ([], [])))) =
     [\<lparr>verb = POST, path = ''/folders/7'', qs = JUndefined,
       body = JObj [(''name'', JStr ''x'')], headers = JUndefined, callback = None\<rparr>] \<and>
   sent (snd (restoreFromTrash scripted ''7'' Undefined None (init [] ([], [])))) =
     [\<lparr>verb = POST, path = ''/folders/7'', qs = JUndefined,
       body = JObj [], headers = JUndefined, callback = None\<rparr>]"
proof -
  have t: "truthy (get_prop (objs (init [[(''parent_id'', JStr ''5''), (''name'', JStr ''x'')]]
             (([], []) :: script)) 0) ''parent_id'')"
    and f: "\<not> truthy (get_prop (objs (init [[(''name'', JStr ''x'')]] (([], []) :: script)) 0)
             ''parent_id'')"
    by (simp_all add: init_simps get_prop_def)
  note a = restoreFromTrash_body [where env = scripted and folderID = "''7''" and a = 0
      and cb = None and opt = Undefined
      and st = "init [[(''parent_id'', JStr ''5''), (''name'', JStr ''x'')]] ([], [])",
      THEN conjunct1, rule_format, OF t]
  note b = restoreFromTrash_body [where env = scripted and folderID = "''7''" and a = 0
      and cb = None and opt = Undefined
      and st = "init [[(''name'', JStr ''x'')]] ([], [])",
      THEN conjunct2, THEN conjunct1, rule_format, OF f]
  note c = restoreFromTrash_body [where env = scripted and folderID = "''7''" and a = 0
      and cb = None and opt = Undefined and st = "init [] ([], [])",
      THEN conjunct2, THEN conjunct2, rule_format]
  show ?thesis
    using t f a b c
    by (simp add: init_simps scripted_simps get_prop_def delete_prop_def join_path_def
        BASE_PATH_def)
qed

text \<open>
  Claim C9 as stated fails: \<^verbatim>\<open>restoreFromTrash('7', {parent_id: '', name: 'x'})\<close> has
  a \<^verbatim>\<open>parent_id\<close> key, yet the body keeps it and gets no \<^verbatim>\<open>parent\<close>.
\<close>

theorem restoreFromTrash_empty_parent_id_counterexample:
  "sent (snd (restoreFromTrash scripted ''7'' (Object 0) None
           (init [[(''parent_id'', JStr ''''), (''name'', JStr ''x'')]] ([], [])))) =
     [\<lparr>verb = POST, path = ''/folders/7'', qs = JUndefined,
       body = JObj [(''parent_id'', JStr ''''), (''name'', JStr ''x'')],
       headers = JUndefined, callback = None\<rparr>]"
  by (simp add: restoreFromTrash_def Let_def sent_wrapped make_request_def init_simps
      scripted_simps get_prop_def join_path_def BASE_PATH_def)

subsection \<open>\<^verbatim>\<open>setMetadata\<close>\<close>

lemma fst_asCallback: "fst (asCallback cb rs) = fst rs"
  by (simp add: asCallback_def split: option.splits)

lemma sent_asCallback: "sent (snd (asCallback cb rs)) = sent (snd rs)"
  by (simp add: asCallback_def split: option.splits)

lemma wrapped_eq:
  "wrapWithDefaultHandler env (make_request st m p ps cb) (world st) = (r, w) \<Longrightarrow>
   wrapped env m p ps cb st = (r, st\<lparr>world := w, sent := sent st @ [make_request st m p ps cb]\<rparr>)"
  by (simp add: wrapped_def Let_def)

lemma addMetadata_eq:
  "wrapWithDefaultHandler env
     \<lparr>verb = POST, path = urlPath env [BASE_PATH, folderID, ''metadata'', scope, template],
      qs = JUndefined, body = JObj data, headers = JUndefined, callback = cb\<rparr> (world st) = (r, w) \<Longrightarrow>
   addMetadata env folderID scope template data cb st =
     (r, st\<lparr>world := w, sent := sent st @
        [\<lparr>verb = POST, path = urlPath env [BASE_PATH, folderID, ''metadata'', scope, template],
          qs = JUndefined, body = JObj data, headers = JUndefined, callback = cb\<rparr>]\<rparr>)"
  by (simp add: addMetadata_def Let_def wrapped_eq make_request_def)

lemma sent_updateMetadata:
  "sent (snd (updateMetadata env folderID scope template patch cb st)) = sent st @
     [\<lparr>verb = PUT, path = urlPath env [BASE_PATH, folderID, ''metadata'', scope, template],
       qs = JUndefined, body = patch,
       headers = JObj [(''Content-Type'', JStr ''application/json-patch+json'')],
       callback = cb\<rparr>]"
  by (simp add: updateMetadata_def Let_def sent_wrapped make_request_def)

lemma fst_updateMetadata:
  "fst (updateMetadata env folderID scope template patch cb st) =
   fst (wrapWithDefaultHandler env
     \<lparr>verb = PUT, path = urlPath env [BASE_PATH, folderID, ''metadata'', scope, template],
       qs = JUndefined, body = patch,
       headers = JObj [(''Content-Type'', JStr ''application/json-patch+json'')],
       callback = cb\<rparr> (world st))"
  by (simp add: updateMetadata_def Let_def fst_wrapped make_request_def)

lemma setMetadata_resolved:
  assumes "addMetadata env folderID scope template metadata None st = (Inr v, st')"
  shows "setMetadata env folderID scope template metadata cb st = asCallback cb (Inr v, st')"
  using assms by (simp add: setMetadata_def)

lemma setMetadata_other_error:
  assumes "addMetadata env folderID scope template metadata None st = (Inl err, st')"
    and "statusCode_of err \<noteq> Some 409"
  shows "setMetadata env folderID scope template metadata cb st = asCallback cb (Inl err, st')"
  using assms by (simp add: setMetadata_def)

lemma setMetadata_conflict:
  assumes "addMetadata env folderID scope template metadata None st = (Inl err, st')"
    and "statusCode_of err = Some 409"
  shows "setMetadata env folderID scope template metadata cb st =
    asCallback cb (updateMetadata env folderID scope template
      (JArr (map (patch_entry metadata) (Object_keys metadata))) None st')"
  using assms by (simp add: setMetadata_def)

text \<open>
  Claim C1. \<^verbatim>\<open>setMetadata\<close> first makes the request of \<^verbatim>\<open>addMetadata\<close> (a POST of
  the metadata); \<^verbatim>\<open>r\<close> is what the client answers. If it resolves, that is the result
  and no second request is made. If it is rejected with status code 409, exactly one
  more request is made, the PUT of \<^verbatim>\<open>updateMetadata\<close>, whose body is the list of the
  entries \<^verbatim>\<open>{op: 'add', path: '/' + key, value: metadata[key]}\<close>, one for each key of
  the metadata in the order of its keys, and the result is the answer to that request.
  If it is rejected with anything else, no second request is made and the result is
  that same rejection.
\<close>

theorem setMetadata_add_then_update:
  assumes "wrapWithDefaultHandler env
     \<lparr>verb = POST, path = urlPath env [BASE_PATH, folderID, ''metadata'', scope, template],
      qs = JUndefined, body = JObj metadata, headers = JUndefined, callback = None\<rparr>
     (world st) = (r, w)"
  shows "case r of
      Inr v \<Rightarrow>
        fst (setMetadata env folderID scope template metadata cb st) = Inr v \<and>
        sent (snd (setMetadata env folderID scope template metadata cb st)) = sent st @
          [\<lparr>verb = POST,
            path = urlPath env [BASE_PATH, folderID, ''metadata'', scope, template],
            qs = JUndefined, body = JObj metadata, headers = JUndefined, callback = None\<rparr>]
    | Inl err \<Rightarrow>
        if statusCode_of err = Some 409
        then sent (snd (setMetadata env folderID scope template metadata cb st)) = sent st @
               [\<lparr>verb = POST,
                 path = urlPath env [BASE_PATH, folderID, ''metadata'', scope, template],
                 qs = JUndefined, body = JObj metadata, headers = JUndefined,
                 callback = None\<rparr>,
                \<lparr>verb = PUT,
                 path = urlPath env [BASE_PATH, folderID, ''metadata'', scope, template],
                 qs = JUndefined,
                 body = JArr (map (\<lambda>key. JObj [(''op'', JStr ''add''),
                                              (''path'', JStr (''/'' @ key)),
                                              (''value'', get_prop metadata key)])
                               (Object_keys metadata)),
                 headers = JObj [(''Content-Type'', JStr ''application/json-patch+json'')],
                 callback = None\<rparr>] \<and>
             fst (setMetadata env folderID scope template metadata cb st) =
               fst (wrapWithDefaultHandler env
                 \<lparr>verb = PUT,
                  path = urlPath env [BASE_PATH, folderID, ''metadata'', scope, template],
                  qs = JUndefined,
                  body = JArr (map (\<lambda>key. JObj [(''op'', JStr ''add''),
                                               (''path'', JStr (''/'' @ key)),
                                               (''value'', get_prop metadata key)])
                                (Object_keys metadata)),
                  headers = JObj [(''Content-Type'', JStr ''application/json-patch+json'')],
                  callback = None\<rparr> w)
        else fst (setMetadata env folderID scope template metadata cb st) = Inl err \<and>
             sent (snd (setMetadata env folderID scope template metadata cb st)) = sent st @
               [\<lparr>verb = POST,
                 path = urlPath env [BASE_PATH, folderID, ''metadata'', scope, template],
                 qs = JUndefined, body = JObj metadata, headers = JUndefined,
                 callback = None\<rparr>]"
proof (cases r)
  case (Inr v)
  with assms show ?thesis
    by (simp add: setMetadata_resolved [OF addMetadata_eq] fst_asCallback sent_asCallback)
next
  case (Inl err)
  note add = addMetadata_eq [OF assms [unfolded Inl]]
  have entry: "patch_entry metadata =
      (\<lambda>key. JObj [(''op'', JStr ''add''), (''path'', JStr (''/'' @ key)),
                    (''value'', get_prop metadata key)])"
    by (simp add: patch_entry_def fun_eq_iff)
  show ?thesis
  proof (cases "statusCode_of err = Some 409")
    case True
    then show ?thesis
      using Inl
      by (simp add: setMetadata_conflict [OF add] fst_asCallback sent_asCallback
          sent_updateMetadata fst_updateMetadata entry)
  next
    case False
    then show ?thesis
      using Inl
      by (simp add: setMetadata_other_error [OF add] fst_asCallback sent_asCallback)
  qed
qed

theorem setMetadata_add_then_update_witness:
  "fst (setMetadata scripted ''7'' ''global'' ''properties''
          [(''a'', JNum 1), (''b'', JStr ''x'')] None
          (init [] ([Inr (JStr ''created'')], []))) = Inr (JStr ''created'') \<and>
   sent (snd (setMetadata scripted ''7'' ''global'' ''properties''
          [(''a'', JNum 1), (''b'', JStr ''x'')] None
          (init [] ([Inr (JStr ''created'')], [])))) =
     [\<lparr>verb = POST, path = ''/folders/7/metadata/global/properties'', qs = JUndefined,
       body = JObj [(''a'', JNum 1), (''b'', JStr ''x'')], headers = JUndefined,
       callback = None\<rparr>] \<and>
   fst (setMetadata scripted ''7'' ''global'' ''properties''
          [(''a'', JNum 1), (''b'', JStr ''x'')] None
          (init [] ([Inl (Error (Some 409) JNull), Inr (JStr ''updated'')], []))) =
     Inr (JStr ''updated'') \<and>
   sent (snd (setMetadata scripted ''7'' ''global'' ''properties''
          [(''a'', JNum 1), (''b'', JStr ''x'')] None
          (init [] ([Inl (Error (Some 409) JNull), Inr (JStr ''updated'')], [])))) =
     [\<lparr>verb = POST, path = ''/folders/7/metadata/global/properties'', qs = JUndefined,
       body = JObj [(''a'', JNum 1), (''b'', JStr ''x'')], headers = JUndefined,
       callback = None\<rparr>,
      \<lparr>verb = PUT, path = ''/folders/7/metadata/global/properties'', qs = JUndefined,
       body = JArr
         [JObj [(''op'', JStr ''add''), (''path'', JStr ''/a''), (''value'', JNum 1)],
          JObj [(''op'', JStr ''add''), (''path'', JStr ''/b''), (''value'', JStr ''x'')]],
       headers = JObj [(''Content-Type'', JStr ''application/json-patch+json'')],
       callback = None\<rparr>] \<and>
   fst (setMetadata scripted ''7'' ''global'' ''properties''
          [(''a'', JNum 1), (''b'', JStr ''x'')] None
          (init [] ([Inl (Error (Some 404) JNull)], []))) = Inl (Error (Some 404) JNull) \<and>
   sent (snd (setMetadata scripted ''7'' ''global'' ''properties''
          [(''a'', JNum 1), (''b'', JStr ''x'')] None
          (init [] ([Inl (Error (Some 404) JNull)], [])))) =
     [\<lparr>verb = POST, path = ''/folders/7/metadata/global/properties'', qs = JUndefined,
       body = JObj [(''a'', JNum 1), (''b'', JStr ''x'')], headers = JUndefined,
       callback = None\<rparr>]"
proof -
  let ?req = "\<lparr>verb = POST,
      path = urlPath scripted [BASE_PATH, ''7'', ''metadata'', ''global'', ''properties''],
      qs = JUndefined, body = JObj [(''a'', JNum 1), (''b'', JStr ''x'')],
      headers = JUndefined, callback = None\<rparr>"
  have created: "wrapWithDefaultHandler scripted ?req
      (world (init [] ([Inr (JStr ''created'')], []))) = (Inr (JStr ''created''), ([], []))"
    by (simp add: scripted_simps init_simps)
  have conflict: "wrapWithDefaultHandler scripted ?req
      (world (init [] ([Inl (Error (Some 409) JNull), Inr (JStr ''updated'')], []))) =
      (Inl (Error (Some 409) JNull), ([Inr (JStr ''updated'')], []))"
    by (simp add: scripted_simps init_simps)
  have missing: "wrapWithDefaultHandler scripted ?req
      (world (init [] ([Inl (Error (Some 404) JNull)], []))) =
      (Inl (Error (Some 404) JNull), ([], []))"
    by (simp add: scripted_simps init_simps)
  show ?thesis
    using setMetadata_add_then_update [OF created, of None]
      setMetadata_add_then_update [OF conflict, of None]
      setMetadata_add_then_update [OF missing, of None]
    by (simp add: scripted_simps init_simps join_path_def BASE_PATH_def Object_keys_def
        get_prop_def)
qed

subsection \<open>\<^verbatim>\<open>getWatermark\<close>\<close>

lemma bare_eq:
  "client_method env (make_request st m p ps None) (world st) = (r, w) \<Longrightarrow>
   bare env m p ps st = (r, st\<lparr>world := w, sent := sent st @ [make_request st m p ps None]\<rparr>)"
  by (simp add: bare_def Let_def)

lemma getWatermark_eq:
  assumes "client_method env
     \<lparr>verb = GET, path = urlPath env [BASE_PATH, folderID, WATERMARK_SUBRESOURCE],
      qs = resolve st (Passed options), body = JUndefined, headers = JUndefined,
      callback = None\<rparr> (world st) = (Inr resp, w)"
  shows "fst (getWatermark env folderID options cb st) =
    (if statusCode resp \<noteq> 200 then Inl (buildUnexpectedResponseError env resp)
     else member (response_body resp) ''watermark'')"
proof -
  have "bare env GET (urlPath env [BASE_PATH, folderID, WATERMARK_SUBRESOURCE])
      \<lparr>params_qs = Passed options, params_body = Unset, params_headers = Unset\<rparr> st =
    (Inr resp, st\<lparr>world := w, sent := sent st @
      [make_request st GET (urlPath env [BASE_PATH, folderID, WATERMARK_SUBRESOURCE])
         \<lparr>params_qs = Passed options, params_body = Unset, params_headers = Unset\<rparr> None]\<rparr>)"
    using assms by (intro bare_eq) (simp add: make_request_def)
  then show ?thesis
    by (simp add: getWatermark_def Let_def fst_asCallback)
qed

lemma sent_getWatermark:
  "sent (snd (getWatermark env folderID options cb st)) = sent st @
     [\<lparr>verb = GET, path = urlPath env [BASE_PATH, folderID, WATERMARK_SUBRESOURCE],
       qs = resolve st (Passed options), body = JUndefined, headers = JUndefined,
       callback = None\<rparr>]"
  by (simp add: getWatermark_def Let_def sent_asCallback bare_def make_request_def
      split: prod.splits sum.splits)

text \<open>
  Claim C2. \<^verbatim>\<open>getWatermark\<close> makes one GET with the bare client method; \<^verbatim>\<open>resp\<close>
  is the response the client resolves with. If its status code is 200, the result is
  what \<^verbatim>\<open>resp.body.watermark\<close> evaluates to: for a body that is an object, its
  \<^verbatim>\<open>watermark\<close> property alone. If its status code is anything else, the result is a
  rejection with the error that \<^verbatim>\<open>buildUnexpectedResponseError\<close> makes of the
  response.
\<close>

theorem getWatermark_result:
  assumes "client_method env
     \<lparr>verb = GET, path = urlPath env [BASE_PATH, folderID, WATERMARK_SUBRESOURCE],
      qs = resolve st (Passed options), body = JUndefined, headers = JUndefined,
      callback = None\<rparr> (world st) = (Inr resp, w)"
  shows "(statusCode resp = 200 \<longrightarrow>
            fst (getWatermark env folderID options cb st) =
              member (response_body resp) ''watermark'') \<and>
         (statusCode resp = 200 \<longrightarrow> response_body resp = JObj fs \<longrightarrow>
            fst (getWatermark env folderID options cb st) = Inr (get_prop fs ''watermark'')) \<and>
         (statusCode resp \<noteq> 200 \<longrightarrow>
            fst (getWatermark env folderID options cb st) =
              Inl (buildUnexpectedResponseError env resp)) \<and>
         sent (snd (getWatermark env folderID options cb st)) = sent st @
           [\<lparr>verb = GET, path = urlPath env [BASE_PATH, folderID, WATERMARK_SUBRESOURCE],
             qs = resolve st (Passed options), body = JUndefined, headers = JUndefined,
             callback = None\<rparr>]"
  using getWatermark_eq [OF assms, of cb] sent_getWatermark [of env folderID options cb st]
  by simp

theorem getWatermark_result_witness:
  "fst (getWatermark scripted ''7'' Undefined None
          (init [] ([], [Inr \<lparr>statusCode = 200,
             response_body = JObj [(''watermark'', JObj [(''imprint'', JStr ''default'')])]\<rparr>]))) =
     Inr (JObj [(''imprint'', JStr ''default'')]) \<and>
   fst (getWatermark scripted ''7'' Undefined None
          (init [] ([], [Inr \<lparr>statusCode = 404, response_body = JStr ''Not Found''\<rparr>]))) =
     Inl (Error (Some 404) (JStr ''Not Found''))"
proof -
  let ?ok = "\<lparr>statusCode = 200,
      response_body = JObj [(''watermark'', JObj [(''imprint'', JStr ''default'')])]\<rparr>"
  let ?missing = "\<lparr>statusCode = 404, response_body = JStr ''Not Found''\<rparr>"
  have ok: "client_method scripted
      \<lparr>verb = GET, path = urlPath scripted [BASE_PATH, ''7'', WATERMARK_SUBRESOURCE],
       qs = resolve (init [] ([], [Inr ?ok])) (Passed Undefined), body = JUndefined,
       headers = JUndefined, callback = None\<rparr>
      (world (init [] ([], [Inr ?ok]))) = (Inr ?ok, ([], []))"
    by (simp add: scripted_simps init_simps)
  have missing: "client_method scripted
      \<lparr>verb = GET, path = urlPath scripted [BASE_PATH, ''7'', WATERMARK_SUBRESOURCE],
       qs = resolve (init [] ([], [Inr ?missing])) (Passed Undefined), body = JUndefined,
       headers = JUndefined, callback = None\<rparr>
      (world (init [] ([], [Inr ?missing]))) = (Inr ?missing, ([], []))"
    by (simp add: scripted_simps init_simps)
  show ?thesis
    using getWatermark_result [OF ok, of None "[(''watermark'', JObj [(''imprint'', JStr ''default'')])]"]
      getWatermark_result [OF missing, of None "[]"]
    by (simp add: scripted_simps get_prop_def)
qed

subsection \<open>\<^verbatim>\<open>applyWatermark\<close>\<close>










subsection \<open>Collections\<close>

lemma get_eq:
  assumes "wrapWithDefaultHandler env
     \<lparr>verb = GET, path = urlPath env [BASE_PATH, folderID], qs = resolve st (Passed options),
      body = JUndefined, headers = JUndefined, callback = cb\<rparr> (world st) = (r, w)"
  shows "get env folderID options cb st =
     (r, st\<lparr>world := w, sent := sent st @
        [\<lparr>verb = GET, path = urlPath env [BASE_PATH, folderID],
          qs = resolve st (Passed options), body = JUndefined, headers = JUndefined,
          callback = cb\<rparr>]\<rparr>)"
  using assms by (simp add: get_def Let_def wrapped_eq make_request_def)

lemma fetch_collections:
  assumes "wrapWithDefaultHandler env
     \<lparr>verb = GET, path = urlPath env [BASE_PATH, folderID],
      qs = JObj [(''fields'', JStr ''collections'')],
      body = JUndefined, headers = JUndefined, callback = None\<rparr> (world st) = (r, w)"
  shows "get env folderID (Object (next_addr st)) None
      (snd (alloc [(''fields'', JStr ''collections'')] st)) =
     (r, st\<lparr>objs := (objs st)(next_addr st := [(''fields'', JStr ''collections'')]),
           next_addr := Suc (next_addr st), world := w,
           sent := sent st @
             [\<lparr>verb = GET, path = urlPath env [BASE_PATH, folderID],
               qs = JObj [(''fields'', JStr ''collections'')],
               body = JUndefined, headers = JUndefined, callback = None\<rparr>]\<rparr>)"
proof -
  have "get env folderID (Object (next_addr st)) None
      (snd (alloc [(''fields'', JStr ''collections'')] st)) =
     (r, (snd (alloc [(''fields'', JStr ''collections'')] st))\<lparr>world := w,
           sent := sent (snd (alloc [(''fields'', JStr ''collections'')] st)) @
             [\<lparr>verb = GET, path = urlPath env [BASE_PATH, folderID],
               qs = resolve (snd (alloc [(''fields'', JStr ''collections'')] st))
                      (Passed (Object (next_addr st))),
               body = JUndefined, headers = JUndefined, callback = None\<rparr>]\<rparr>)"
    using assms by (intro get_eq) (simp add: alloc_def)
  then show ?thesis
    by (simp add: alloc_def)
qed

lemma sent_update_fresh:
  "sent (snd (update env folderID (Object (next_addr st)) cb
           (snd (alloc [(''collections'', JArr cs)] st)))) = sent st @
     [\<lparr>verb = PUT, path = urlPath env [BASE_PATH, folderID], qs = JUndefined,
       body = JObj [(''collections'', JArr cs)], headers = JUndefined, callback = cb\<rparr>]"
  by (simp add: sent_update_falsy alloc_def get_prop_def)

lemma fst_update_fresh:
  "fst (update env folderID (Object (next_addr st)) cb
          (snd (alloc [(''collections'', JArr cs)] st))) =
   fst (wrapWithDefaultHandler env
     \<lparr>verb = PUT, path = urlPath env [BASE_PATH, folderID], qs = JUndefined,
       body = JObj [(''collections'', JArr cs)], headers = JUndefined, callback = cb\<rparr>
     (world st))"
  by (simp add: update_def Let_def fst_wrapped make_request_def alloc_def get_prop_def)

lemma addToCollection_eq:
  assumes "wrapWithDefaultHandler env
     \<lparr>verb = GET, path = urlPath env [BASE_PATH, folderID],
      qs = JObj [(''fields'', JStr ''collections'')],
      body = JUndefined, headers = JUndefined, callback = None\<rparr> (world st) = (Inr data, w)"
    and "member data ''collections'' = Inr c"
    and "array_map id_only (if truthy c then c else JArr []) = Inr cs"
    and "st1 = st\<lparr>objs := (objs st)(next_addr st := [(''fields'', JStr ''collections'')]),
           next_addr := Suc (next_addr st), world := w,
           sent := sent st @
             [\<lparr>verb = GET, path = urlPath env [BASE_PATH, folderID],
               qs = JObj [(''fields'', JStr ''collections'')],
               body = JUndefined, headers = JUndefined, callback = None\<rparr>]\<rparr>"
  shows "addToCollection env folderID collectionID cb st =
      asCallback cb (update env folderID (Object (next_addr st1)) None
        (snd (alloc [(''collections'',
                 JArr (if \<not> truthy (array_find (has_id collectionID) cs)
                       then cs @ [JObj [(''id'', JStr collectionID)]] else cs))] st1)))"
  using assms(2,3,4) fetch_collections [OF assms(1)]
  by (simp add: addToCollection_def Let_def alloc_def split del: if_split)

lemma removeFromCollection_eq:
  assumes "wrapWithDefaultHandler env
     \<lparr>verb = GET, path = urlPath env [BASE_PATH, folderID],
      qs = JObj [(''fields'', JStr ''collections'')],
      body = JUndefined, headers = JUndefined, callback = None\<rparr> (world st) = (Inr data, w)"
    and "member data ''collections'' = Inr c"
    and "array_map id_only (if truthy c then c else JArr []) = Inr cs"
    and "st1 = st\<lparr>objs := (objs st)(next_addr st := [(''fields'', JStr ''collections'')]),
           next_addr := Suc (next_addr st), world := w,
           sent := sent st @
             [\<lparr>verb = GET, path = urlPath env [BASE_PATH, folderID],
               qs = JObj [(''fields'', JStr ''collections'')],
               body = JUndefined, headers = JUndefined, callback = None\<rparr>]\<rparr>"
  shows "removeFromCollection env folderID collectionID cb st =
      asCallback cb (update env folderID (Object (next_addr st1)) None
        (snd (alloc [(''collections'',
                 JArr (filter (\<lambda>c. \<not> has_id collectionID c) cs))] st1)))"
  using assms(2,3,4) fetch_collections [OF assms(1)]
  by (simp add: removeFromCollection_def Let_def alloc_def split del: if_split)

lemma sent_addToCollection:
  assumes "wrapWithDefaultHandler env
     \<lparr>verb = GET, path = urlPath env [BASE_PATH, folderID],
      qs = JObj [(''fields'', JStr ''collections'')],
      body = JUndefined, headers = JUndefined, callback = None\<rparr> (world st) = (Inr data, w)"
    and "member data ''collections'' = Inr c"
    and "array_map id_only (if truthy c then c else JArr []) = Inr cs"
  shows "sent (snd (addToCollection env folderID collectionID cb st)) = sent st @
     [\<lparr>verb = GET, path = urlPath env [BASE_PATH, folderID],
       qs = JObj [(''fields'', JStr ''collections'')],
       body = JUndefined, headers = JUndefined, callback = None\<rparr>,
      \<lparr>verb = PUT, path = urlPath env [BASE_PATH, folderID], qs = JUndefined,
       body = JObj [(''collections'',
                JArr (if \<not> truthy (array_find (has_id collectionID) cs)
                      then cs @ [JObj [(''id'', JStr collectionID)]] else cs))],
       headers = JUndefined, callback = None\<rparr>]"
  by (simp only: addToCollection_eq [OF assms refl] sent_asCallback sent_update_fresh) simp

lemma sent_removeFromCollection:
  assumes "wrapWithDefaultHandler env
     \<lparr>verb = GET, path = urlPath env [BASE_PATH, folderID],
      qs = JObj [(''fields'', JStr ''collections'')],
      body = JUndefined, headers = JUndefined, callback = None\<rparr> (world st) = (Inr data, w)"
    and "member data ''collections'' = Inr c"
    and "array_map id_only (if truthy c then c else JArr []) = Inr cs"
  shows "sent (snd (removeFromCollection env folderID collectionID cb st)) = sent st @
     [\<lparr>verb = GET, path = urlPath env [BASE_PATH, folderID],
       qs = JObj [(''fields'', JStr ''collections'')],
       body = JUndefined, headers = JUndefined, callback = None\<rparr>,
      \<lparr>verb = PUT, path = urlPath env [BASE_PATH, folderID], qs = JUndefined,
       body = JObj [(''collections'', JArr (filter (\<lambda>c. \<not> has_id collectionID c) cs))],
       headers = JUndefined, callback = None\<rparr>]"
  by (simp only: removeFromCollection_eq [OF assms refl] sent_asCallback sent_update_fresh)
    simp

lemma fst_addToCollection:
  assumes "wrapWithDefaultHandler env
     \<lparr>verb = GET, path = urlPath env [BASE_PATH, folderID],
      qs = JObj [(''fields'', JStr ''collections'')],
      body = JUndefined, headers = JUndefined, callback = None\<rparr> (world st) = (Inr data, w)"
    and "member data ''collections'' = Inr c"
    and "array_map id_only (if truthy c then c else JArr []) = Inr cs"
  shows "fst (addToCollection env folderID collectionID cb st) =
    fst (wrapWithDefaultHandler env
      \<lparr>verb = PUT, path = urlPath env [BASE_PATH, folderID], qs = JUndefined,
       body = JObj [(''collections'',
                JArr (if \<not> truthy (array_find (has_id collectionID) cs)
                      then cs @ [JObj [(''id'', JStr collectionID)]] else cs))],
       headers = JUndefined, callback = None\<rparr> w)"
  by (simp only: addToCollection_eq [OF assms refl] fst_asCallback fst_update_fresh) simp

lemma fst_removeFromCollection:
  assumes "wrapWithDefaultHandler env
     \<lparr>verb = GET, path = urlPath env [BASE_PATH, folderID],
      qs = JObj [(''fields'', JStr ''collections'')],
      body = JUndefined, headers = JUndefined, callback = None\<rparr> (world st) = (Inr data, w)"
    and "member data ''collections'' = Inr c"
    and "array_map id_only (if truthy c then c else JArr []) = Inr cs"
  shows "fst (removeFromCollection env folderID collectionID cb st) =
    fst (wrapWithDefaultHandler env
      \<lparr>verb = PUT, path = urlPath env [BASE_PATH, folderID], qs = JUndefined,
       body = JObj [(''collections'', JArr (filter (\<lambda>c. \<not> has_id collectionID c) cs))],
       headers = JUndefined, callback = None\<rparr> w)"
  by (simp only: removeFromCollection_eq [OF assms refl] fst_asCallback fst_update_fresh) simp

lemma map_throw_id_only:
  "map_throw id_only (map JObj fss) = Inr (map (\<lambda>fs. JObj [(''id'', get_prop fs ''id'')]) fss)"
  by (induction fss) (simp_all add: id_only_def)

lemma normalize_objects:
  "array_map id_only (if truthy (JArr (map JObj fss)) then JArr (map JObj fss) else JArr []) =
   Inr (map (\<lambda>fs. JObj [(''id'', get_prop fs ''id'')]) fss)"
  by (simp add: map_throw_id_only)

lemma find_has_id:
  "truthy (array_find (has_id collectionID)
     (map (\<lambda>fs. JObj [(''id'', get_prop fs ''id'')]) fss)) \<longleftrightarrow>
   JStr collectionID \<in> (\<lambda>fs. get_prop fs ''id'') ` set fss"
  by (induction fss) (auto simp: array_find_def has_id_def get_prop_def)

lemma filter_has_id:
  "filter (\<lambda>c. \<not> has_id collectionID c) (map (\<lambda>fs. JObj [(''id'', get_prop fs ''id'')]) fss) =
   map (\<lambda>fs. JObj [(''id'', get_prop fs ''id'')])
     (filter (\<lambda>fs. get_prop fs ''id'' \<noteq> JStr collectionID) fss)"
  by (induction fss) (auto simp: has_id_def get_prop_def)

text \<open>
  Claim C7. \<^verbatim>\<open>addToCollection\<close> and \<^verbatim>\<open>removeFromCollection\<close> first GET the folder
  with the query \<^verbatim>\<open>{fields: 'collections'}\<close>; \<^verbatim>\<open>data\<close> is what that call resolves
  with. When its \<^verbatim>\<open>collections\<close> field is a list of objects, whatever their number
  and their fields, the second and last request is the PUT of \<^verbatim>\<open>update\<close> whose body
  is \<^verbatim>\<open>{collections: l}\<close>, and the result of the operation is the result of that PUT.
  For \<^verbatim>\<open>addToCollection\<close>, \<^verbatim>\<open>l\<close> is the fetched list with each entry reduced to
  \<^verbatim>\<open>{id: entry.id}\<close>, in the same order, followed by \<^verbatim>\<open>{id: collectionID}\<close> when no
  entry has that id and by nothing when one has. For \<^verbatim>\<open>removeFromCollection\<close>,
  \<^verbatim>\<open>l\<close> is the list of \<^verbatim>\<open>{id: entry.id}\<close> for the entries whose id is not
  \<^verbatim>\<open>collectionID\<close>, in the same order. So a fetched \<^verbatim>\<open>[{id:'1'},{id:'2'}]\<close> gives
  \<^verbatim>\<open>[{id:'1'},{id:'2'},{id:'3'}]\<close> for \<^verbatim>\<open>addToCollection\<close> of \<^verbatim>\<open>'3'\<close>,
  \<^verbatim>\<open>[{id:'1'},{id:'2'}]\<close> for \<^verbatim>\<open>addToCollection\<close> of \<^verbatim>\<open>'1'\<close>, and
  \<^verbatim>\<open>[{id:'1'}]\<close> for \<^verbatim>\<open>removeFromCollection\<close> of \<^verbatim>\<open>'2'\<close>.
\<close>

theorem collections_add_remove:
  assumes "wrapWithDefaultHandler env
     \<lparr>verb = GET, path = urlPath env [BASE_PATH, folderID],
      qs = JObj [(''fields'', JStr ''collections'')],
      body = JUndefined, headers = JUndefined, callback = None\<rparr> (world st) = (Inr data, w)"
    and "member data ''collections'' = Inr (JArr (map JObj fss))"
  shows "sent (snd (addToCollection env folderID collectionID cb st)) = sent st @
     [\<lparr>verb = GET, path = urlPath env [BASE_PATH, folderID],
       qs = JObj [(''fields'', JStr ''collections'')],
       body = JUndefined, headers = JUndefined, callback = None\<rparr>,
      \<lparr>verb = PUT, path = urlPath env [BASE_PATH, folderID], qs = JUndefined,
       body = JObj [(''collections'',
                JArr (map (\<lambda>fs. JObj [(''id'', get_prop fs ''id'')]) fss @
                      (if JStr collectionID \<in> (\<lambda>fs. get_prop fs ''id'') ` set fss
                       then [] else [JObj [(''id'', JStr collectionID)]])))],
       headers = JUndefined, callback = None\<rparr>] \<and>
    fst (addToCollection env folderID collectionID cb st) =
      fst (wrapWithDefaultHandler env
        \<lparr>verb = PUT, path = urlPath env [BASE_PATH, folderID], qs = JUndefined,
         body = JObj [(''collections'',
                  JArr (map (\<lambda>fs. JObj [(''id'', get_prop fs ''id'')]) fss @
                        (if JStr collectionID \<in> (\<lambda>fs. get_prop fs ''id'') ` set fss
                         then [] else [JObj [(''id'', JStr collectionID)]])))],
         headers = JUndefined, callback = None\<rparr> w) \<and>
    sent (snd (removeFromCollection env folderID collectionID cb st)) = sent st @
     [\<lparr>verb = GET, path = urlPath env [BASE_PATH, folderID],
       qs = JObj [(''fields'', JStr ''collections'')],
       body = JUndefined, headers = JUndefined, callback = None\<rparr>,
      \<lparr>verb = PUT, path = urlPath env [BASE_PATH, folderID], qs = JUndefined,
       body = JObj [(''collections'',
                JArr (map (\<lambda>fs. JObj [(''id'', get_prop fs ''id'')])
                        (filter (\<lambda>fs. get_prop fs ''id'' \<noteq> JStr collectionID) fss)))],
       headers = JUndefined, callback = None\<rparr>] \<and>
    fst (removeFromCollection env folderID collectionID cb st) =
      fst (wrapWithDefaultHandler env
        \<lparr>verb = PUT, path = urlPath env [BASE_PATH, folderID], qs = JUndefined,
         body = JObj [(''collections'',
                  JArr (map (\<lambda>fs. JObj [(''id'', get_prop fs ''id'')])
                          (filter (\<lambda>fs. get_prop fs ''id'' \<noteq> JStr collectionID) fss)))],
         headers = JUndefined, callback = None\<rparr> w)"
proof -
  note norm = normalize_objects [of fss]
  have add: "(if \<not> truthy (array_find (has_id collectionID)
                  (map (\<lambda>fs. JObj [(''id'', get_prop fs ''id'')]) fss))
              then map (\<lambda>fs. JObj [(''id'', get_prop fs ''id'')]) fss @
                   [JObj [(''id'', JStr collectionID)]]
              else map (\<lambda>fs. JObj [(''id'', get_prop fs ''id'')]) fss) =
             map (\<lambda>fs. JObj [(''id'', get_prop fs ''id'')]) fss @
               (if JStr collectionID \<in> (\<lambda>fs. get_prop fs ''id'') ` set fss
                then [] else [JObj [(''id'', JStr collectionID)]])"
    by (simp add: find_has_id)
  show ?thesis
    using sent_addToCollection [OF assms norm, of collectionID cb]
      fst_addToCollection [OF assms norm, of collectionID cb]
      sent_removeFromCollection [OF assms norm, of collectionID cb]
      fst_removeFromCollection [OF assms norm, of collectionID cb]
    by (simp only: add filter_has_id)
qed

theorem collections_add_remove_witness:
  "sent (snd (addToCollection scripted ''7'' ''3'' None
     (init [] ([Inr (JObj [(''collections'',
        JArr [JObj [(''id'', JStr ''1'')], JObj [(''id'', JStr ''2'')]])]),
        Inr (JStr ''updated'')], [])))) =
     [\<lparr>verb = GET, path = ''/folders/7'', qs = JObj [(''fields'', JStr ''collections'')],
       body = JUndefined, headers = JUndefined, callback = None\<rparr>,
      \<lparr>verb = PUT, path = ''/folders/7'', qs = JUndefined,
       body = JObj [(''collections'',
                JArr [JObj [(''id'', JStr ''1'')], JObj [(''id'', JStr ''2'')],
                      JObj [(''id'', JStr ''3'')]])],
       headers = JUndefined, callback = None\<rparr>] \<and>
   fst (addToCollection scripted ''7'' ''3'' None
     (init [] ([Inr (JObj [(''collections'',
        JArr [JObj [(''id'', JStr ''1'')], JObj [(''id'', JStr ''2'')]])]),
        Inr (JStr ''updated'')], []))) = Inr (JStr ''updated'') \<and>
   sent (snd (addToCollection scripted ''7'' ''1'' None
     (init [] ([Inr (JObj [(''collections'',
        JArr [JObj [(''id'', JStr ''1'')], JObj [(''id'', JStr ''2'')]])]),
        Inr (JStr ''updated'')], [])))) =
     [\<lparr>verb = GET, path = ''/folders/7'', qs = JObj [(''fields'', JStr ''collections'')],
       body = JUndefined, headers = JUndefined, callback = None\<rparr>,
      \<lparr>verb = PUT, path = ''/folders/7'', qs = JUndefined,
       body = JObj [(''collections'',
                JArr [JObj [(''id'', JStr ''1'')], JObj [(''id'', JStr ''2'')]])],
       headers = JUndefined, callback = None\<rparr>] \<and>
   sent (snd (removeFromCollection scripted ''7'' ''2'' None
     (init [] ([Inr (JObj [(''collections'',
        JArr [JObj [(''id'', JStr ''1'')], JObj [(''id'', JStr ''2'')]])]),
        Inr (JStr ''updated'')], [])))) =
     [\<lparr>verb = GET, path = ''/folders/7'', qs = JObj [(''fields'', JStr ''collections'')],
       body = JUndefined, headers = JUndefined, callback = None\<rparr>,
      \<lparr>verb = PUT, path = ''/folders/7'', qs = JUndefined,
       body = JObj [(''collections'', JArr [JObj [(''id'', JStr ''1'')]])],
       headers = JUndefined, callback = None\<rparr>] \<and>
   sent (snd (removeFromCollection scripted ''7'' ''9'' None
     (init [] ([Inr (JObj [(''collections'',
        JArr [JObj [(''id'', JStr ''9''), (''name'', JStr ''Favorites'')],
              JObj [(''id'', JStr ''4'')], JObj [(''id'', JStr ''9'')],
              JObj [(''name'', JStr ''no id'')]])]),
        Inr (JStr ''updated'')], [])))) =
     [\<lparr>verb = GET, path = ''/folders/7'', qs = JObj [(''fields'', JStr ''collections'')],
       body = JUndefined, headers = JUndefined, callback = None\<rparr>,
      \<lparr>verb = PUT, path = ''/folders/7'', qs = JUndefined,
       body = JObj [(''collections'',
                JArr [JObj [(''id'', JStr ''4'')], JObj [(''id'', JUndefined)]])],
       headers = JUndefined, callback = None\<rparr>]"
proof -
  let ?two = "[[(''id'', JStr ''1'')], [(''id'', JStr ''2'')]]"
  let ?four = "[[(''id'', JStr ''9''), (''name'', JStr ''Favorites'')],
     [(''id'', JStr ''4'')], [(''id'', JStr ''9'')], [(''name'', JStr ''no id'')]]"
  let ?data2 = "JObj [(''collections'', JArr (map JObj ?two))]"
  let ?data4 = "JObj [(''collections'', JArr (map JObj ?four))]"
  have fetched2: "wrapWithDefaultHandler scripted
     \<lparr>verb = GET, path = urlPath scripted [BASE_PATH, ''7''],
      qs = JObj [(''fields'', JStr ''collections'')],
      body = JUndefined, headers = JUndefined, callback = None\<rparr>
     (world (init [] ([Inr ?data2, Inr (JStr ''updated'')], []))) =
     (Inr ?data2, ([Inr (JStr ''updated'')], []))"
    by (simp add: scripted_simps init_simps)
  have fetched4: "wrapWithDefaultHandler scripted
     \<lparr>verb = GET, path = urlPath scripted [BASE_PATH, ''7''],
      qs = JObj [(''fields'', JStr ''collections'')],
      body = JUndefined, headers = JUndefined, callback = None\<rparr>
     (world (init [] ([Inr ?data4, Inr (JStr ''updated'')], []))) =
     (Inr ?data4, ([Inr (JStr ''updated'')], []))"
    by (simp add: scripted_simps init_simps)
  have field2: "member ?data2 ''collections'' = Inr (JArr (map JObj ?two))"
    by (simp add: get_prop_def)
  have field4: "member ?data4 ''collections'' = Inr (JArr (map JObj ?four))"
    by (simp add: get_prop_def)
  show ?thesis
    using collections_add_remove [OF fetched2 field2, of "''3''" None]
      collections_add_remove [OF fetched2 field2, of "''1''" None]
      collections_add_remove [OF fetched2 field2, of "''2''" None]
      collections_add_remove [OF fetched4 field4, of "''9''" None]
    by (simp add: init_simps scripted_simps join_path_def BASE_PATH_def get_prop_def)
qed

text \<open>
  Claim C10. When the folder that \<^verbatim>\<open>addToCollection\<close> or \<^verbatim>\<open>removeFromCollection\<close>
  fetched is an object without a \<^verbatim>\<open>collections\<close> field, or with that field
  \<^verbatim>\<open>null\<close>, the operation goes on with the empty list: \<^verbatim>\<open>addToCollection\<close> makes
  the PUT of \<^verbatim>\<open>update\<close> with \<^verbatim>\<open>{collections: [{id: collectionID}]}\<close>,
  \<^verbatim>\<open>removeFromCollection\<close> with \<^verbatim>\<open>{collections: []}\<close>, and the result of the
  operation is the result of that PUT.
\<close>

theorem collections_missing_field:
  assumes "wrapWithDefaultHandler env
     \<lparr>verb = GET, path = urlPath env [BASE_PATH, folderID],
      qs = JObj [(''fields'', JStr ''collections'')],
      body = JUndefined, headers = JUndefined, callback = None\<rparr> (world st) =
       (Inr (JObj fs), w)"
    and "map_of fs ''collections'' = None \<or> map_of fs ''collections'' = Some JNull"
  shows "sent (snd (addToCollection env folderID collectionID cb st)) = sent st @
     [\<lparr>verb = GET, path = urlPath env [BASE_PATH, folderID],
       qs = JObj [(''fields'', JStr ''collections'')],
       body = JUndefined, headers = JUndefined, callback = None\<rparr>,
      \<lparr>verb = PUT, path = urlPath env [BASE_PATH, folderID], qs = JUndefined,
       body = JObj [(''collections'', JArr [JObj [(''id'', JStr collectionID)]])],
       headers = JUndefined, callback = None\<rparr>] \<and>
    sent (snd (removeFromCollection env folderID collectionID cb st)) = sent st @
     [\<lparr>verb = GET, path = urlPath env [BASE_PATH, folderID],
       qs = JObj [(''fields'', JStr ''collections'')],
       body = JUndefined, headers = JUndefined, callback = None\<rparr>,
      \<lparr>verb = PUT, path = urlPath env [BASE_PATH, folderID], qs = JUndefined,
       body = JObj [(''collections'', JArr [])],
       headers = JUndefined, callback = None\<rparr>] \<and>
    fst (addToCollection env folderID collectionID cb st) =
      fst (wrapWithDefaultHandler env
        \<lparr>verb = PUT, path = urlPath env [BASE_PATH, folderID], qs = JUndefined,
         body = JObj [(''collections'', JArr [JObj [(''id'', JStr collectionID)]])],
         headers = JUndefined, callback = None\<rparr> w) \<and>
    fst (removeFromCollection env folderID collectionID cb st) =
      fst (wrapWithDefaultHandler env
        \<lparr>verb = PUT, path = urlPath env [BASE_PATH, folderID], qs = JUndefined,
         body = JObj [(''collections'', JArr [])],
         headers = JUndefined, callback = None\<rparr> w)"
proof -
  from assms(2) have falsy: "\<not> truthy (get_prop fs ''collections'')"
    by (auto simp: get_prop_def)
  have field: "member (JObj fs) ''collections'' = Inr (get_prop fs ''collections'')"
    by simp
  have norm: "array_map id_only
      (if truthy (get_prop fs ''collections'') then get_prop fs ''collections'' else JArr []) =
      Inr []"
    using falsy by simp
  show ?thesis
    using sent_addToCollection [OF assms(1) field norm, of collectionID cb]
      sent_removeFromCollection [OF assms(1) field norm, of collectionID cb]
      fst_addToCollection [OF assms(1) field norm, of collectionID cb]
      fst_removeFromCollection [OF assms(1) field norm, of collectionID cb]
    by (simp add: array_find_def)
qed

theorem collections_missing_field_witness:
  "sent (snd (addToCollection scripted ''7'' ''3'' None
     (init [] ([Inr (JObj [(''id'', JStr ''7'')]), Inr (JStr ''updated'')], [])))) =
     [\<lparr>verb = GET, path = ''/folders/7'', qs = JObj [(''fields'', JStr ''collections'')],
       body = JUndefined, headers = JUndefined, callback = None\<rparr>,
      \<lparr>verb = PUT, path = ''/folders/7'', qs = JUndefined,
       body = JObj [(''collections'', JArr [JObj [(''id'', JStr ''3'')]])],
       headers = JUndefined, callback = None\<rparr>] \<and>
   fst (addToCollection scripted ''7'' ''3'' None
     (init [] ([Inr (JObj [(''id'', JStr ''7'')]), Inr (JStr ''updated'')], []))) =
     Inr (JStr ''updated'') \<and>
   sent (snd (removeFromCollection scripted ''7'' ''3'' None
     (init [] ([Inr (JObj [(''collections'', JNull)]), Inr (JStr ''updated'')], [])))) =
     [\<lparr>verb = GET, path = ''/folders/7'', qs = JObj [(''fields'', JStr ''collections'')],
       body = JUndefined, headers = JUndefined, callback = None\<rparr>,
      \<lparr>verb = PUT, path = ''/folders/7'', qs = JUndefined,
       body = JObj [(''collections'', JArr [])],
       headers = JUndefined, callback = None\<rparr>] \<and>
   fst (removeFromCollection scripted ''7'' ''3'' None
     (init [] ([Inr (JObj [(''collections'', JNull)]), Inr (JStr ''updated'')], []))) =
     Inr (JStr ''updated'')"
proof -
  have absent: "wrapWithDefaultHandler scripted
     \<lparr>verb = GET, path = urlPath scripted [BASE_PATH, ''7''],
      qs = JObj [(''fields'', JStr ''collections'')],
      body = JUndefined, headers = JUndefined, callback = None\<rparr>
     (world (init [] ([Inr (JObj [(''id'', JStr ''7'')]), Inr (JStr ''updated'')], []))) =
     (Inr (JObj [(''id'', JStr ''7'')]), ([Inr (JStr ''updated'')], []))"
    by (simp add: scripted_simps init_simps)
  have null: "wrapWithDefaultHandler scripted
     \<lparr>verb = GET, path = urlPath scripted [BASE_PATH, ''7''],
      qs = JObj [(''fields'', JStr ''collections'')],
      body = JUndefined, headers = JUndefined, callback = None\<rparr>
     (world (init [] ([Inr (JObj [(''collections'', JNull)]), Inr (JStr ''updated'')], []))) =
     (Inr (JObj [(''collections'', JNull)]), ([Inr (JStr ''updated'')], []))"
    by (simp add: scripted_simps init_simps)
  have no_field: "map_of [(''id'', JStr ''7'')] ''collections'' = None \<or>
      map_of [(''id'', JStr ''7'')] ''collections'' = Some JNull"
    by simp
  have null_field: "map_of [(''collections'', JNull)] ''collections'' = None \<or>
      map_of [(''collections'', JNull)] ''collections'' = Some JNull"
    by simp
  show ?thesis
    using collections_missing_field [OF absent no_field, of "''3''" None]
      collections_missing_field [OF null null_field, of "''3''" None]
    by (simp add: init_simps scripted_simps join_path_def BASE_PATH_def)
qed

end
